theory Spec2Isabelle
  imports Complex_Main "HOL-Library.Sublist"
begin

section \<open>Python strings\<close>

text \<open>
  A Python \<open>str\<close> is a sequence of Unicode code points, and \<open>len\<close>, \<open>count\<close>,
  \<open>expandtabs\<close> and slicing all work on code points. The model therefore takes a
  \<open>str\<close> to be the list of its code points; \<open>u\<close> embeds an ASCII literal.
\<close>

type_synonym str = "nat list"

definition u :: "string \<Rightarrow> str" where
  "u s = map of_char s"

text \<open>The three non-ASCII symbols of the tool messages: U+274C, U+2713 and U+2192.\<close>

definition cross_mark :: str where
  "cross_mark = [10060]"

definition check_mark :: str where
  "check_mark = [10003]"

definition arrow :: str where
  "arrow = [8594]"

text \<open>\<open>str(n)\<close> for a natural number, an integer and an optional integer.\<close>

function str_nat :: "nat \<Rightarrow> str" where
  "str_nat n = (if n < 10 then [48 + n] else str_nat (n div 10) @ [48 + n mod 10])"
  by pat_completeness auto
termination
  by (relation "measure id") auto

declare str_nat.simps [simp del]

definition str_int :: "int \<Rightarrow> str" where
  "str_int i = (if i < 0 then u ''-'' @ str_nat (nat (- i)) else str_nat (nat i))"

definition str_opt_int :: "int option \<Rightarrow> str" where
  "str_opt_int x = (case x of None \<Rightarrow> u ''None'' | Some i \<Rightarrow> str_int i)"

text \<open>The format \<open>{n:,}\<close>: decimal digits in groups of three.\<close>

definition pad3 :: "nat \<Rightarrow> str" where
  "pad3 n = [48 + n div 100, 48 + (n div 10) mod 10, 48 + n mod 10]"

function fmt_comma :: "nat \<Rightarrow> str" where
  "fmt_comma n =
     (if n < 1000 then str_nat n else fmt_comma (n div 1000) @ u '','' @ pad3 (n mod 1000))"
  by pat_completeness auto
termination
  by (relation "measure id") auto

declare fmt_comma.simps [simp del]

text \<open>The format \<open>{n:6d}\<close>: right-aligned in a field of six characters.\<close>

definition fmt_6d :: "int \<Rightarrow> str" where
  "fmt_6d i = (let s = str_int i in replicate (6 - length s) 32 @ s)"

text \<open>
  The format \<open>{size / 1024:.1f}\<close> of a byte count: the quotient is exact in binary
  floating point, and the format rounds it to one decimal, ties to even.
\<close>

definition fmt_kb_1f :: "nat \<Rightarrow> str" where
  "fmt_kb_1f size_bytes =
     (let q = (size_bytes * 10) div 1024;
          r = (size_bytes * 10) mod 1024;
          t = (if r > 512 \<or> (r = 512 \<and> odd q) then q + 1 else q)
      in str_nat (t div 10) @ u ''.'' @ str_nat (t mod 10))"

text \<open>\<open>s.expandtabs()\<close> with the default tab size 8; the column restarts after a line end.\<close>

fun expandtabs_from :: "nat \<Rightarrow> str \<Rightarrow> str" where
  "expandtabs_from j [] = []"
| "expandtabs_from j (c # cs) =
     (if c = 9 then
        (let incr = 8 - j mod 8 in replicate incr 32 @ expandtabs_from (j + incr) cs)
      else if c = 10 \<or> c = 13 then c # expandtabs_from 0 cs
      else c # expandtabs_from (j + 1) cs)"

definition expandtabs :: "str \<Rightarrow> str" where
  "expandtabs s = expandtabs_from 0 s"

text \<open>
  \<open>s.find(sub, start)\<close>: the least index at or after \<open>start\<close> where \<open>sub\<close> occurs;
  \<open>None\<close> stands for the result -1.
\<close>

fun find_first :: "str \<Rightarrow> str \<Rightarrow> nat option" where
  "find_first sub [] = (if sub = [] then Some 0 else None)"
| "find_first sub (c # cs) =
     (if prefix sub (c # cs) then Some 0 else map_option Suc (find_first sub cs))"

definition str_find :: "str \<Rightarrow> str \<Rightarrow> nat \<Rightarrow> nat option" where
  "str_find s sub start =
     (if length s < start then None
      else map_option (\<lambda>i. start + i) (find_first sub (drop start s)))"

text \<open>\<open>sub in s\<close>.\<close>

definition str_contains :: "str \<Rightarrow> str \<Rightarrow> bool" where
  "str_contains sub s = (find_first sub s \<noteq> None)"

text \<open>
  \<open>s.count(sub)\<close> counts occurrences that do not overlap, from the left; the second
  argument of \<open>count_skip\<close> is the number of characters of the last match that are
  still to be passed over. The empty string occurs \<open>len(s) + 1\<close> times.
\<close>

fun count_skip :: "str \<Rightarrow> nat \<Rightarrow> str \<Rightarrow> nat" where
  "count_skip sub k [] = 0"
| "count_skip sub k (c # cs) =
     (if 0 < k then count_skip sub (k - 1) cs
      else if prefix sub (c # cs) then 1 + count_skip sub (length sub - 1) cs
      else count_skip sub 0 cs)"

definition str_count :: "str \<Rightarrow> str \<Rightarrow> nat" where
  "str_count s sub = (if sub = [] then length s + 1 else count_skip sub 0 s)"

text \<open>\<open>s.replace(old, new)\<close> and \<open>s.replace(old, new, 1)\<close>.\<close>

fun replace_skip :: "str \<Rightarrow> str \<Rightarrow> nat \<Rightarrow> str \<Rightarrow> str" where
  "replace_skip old new k [] = []"
| "replace_skip old new k (c # cs) =
     (if 0 < k then replace_skip old new (k - 1) cs
      else if prefix old (c # cs) then new @ replace_skip old new (length old - 1) cs
      else c # replace_skip old new 0 cs)"

definition str_replace :: "str \<Rightarrow> str \<Rightarrow> str \<Rightarrow> str" where
  "str_replace s old new =
     (if old = [] then new @ concat (map (\<lambda>c. c # new) s) else replace_skip old new 0 s)"

definition str_replace_first :: "str \<Rightarrow> str \<Rightarrow> str \<Rightarrow> str" where
  "str_replace_first s old new =
     (case find_first old s of
        None \<Rightarrow> s
      | Some i \<Rightarrow> take i s @ new @ drop (i + length old) s)"

text \<open>\<open>s.split(c)\<close> for a one-character separator, and \<open>sep.join(xs)\<close>.\<close>

fun split_char :: "nat \<Rightarrow> str \<Rightarrow> str list" where
  "split_char sep [] = [[]]"
| "split_char sep (c # cs) =
     (if c = sep then [] # split_char sep cs
      else (case split_char sep cs of
              [] \<Rightarrow> [[c]]
            | l # ls \<Rightarrow> (c # l) # ls))"

fun str_join :: "str \<Rightarrow> str list \<Rightarrow> str" where
  "str_join sep [] = []"
| "str_join sep [x] = x"
| "str_join sep (x # y # ys) = x @ sep @ str_join sep (y # ys)"

text \<open>
  \<open>s.split(sep)[0]\<close> for a string separator: the text before the first occurrence,
  the whole text when there is none, and a \<open>ValueError\<close> (\<open>None\<close>) for the empty
  separator.
\<close>

definition split_head :: "str \<Rightarrow> str \<Rightarrow> str option" where
  "split_head s sep =
     (if sep = [] then None
      else (case find_first sep s of None \<Rightarrow> Some s | Some i \<Rightarrow> Some (take i s)))"

text \<open>
  \<open>s.splitlines(keepends=True)\<close>. The line boundaries of Python are LF, CR, CR LF,
  VT, FF, FS, GS, RS, NEL, LS and PS.
\<close>

definition is_linebreak :: "nat \<Rightarrow> bool" where
  "is_linebreak c \<longleftrightarrow> c \<in> {10, 11, 12, 13, 28, 29, 30, 133, 8232, 8233}"

fun splitlines_from :: "str \<Rightarrow> str \<Rightarrow> str list" where
  "splitlines_from cur [] = (if cur = [] then [] else [cur])"
| "splitlines_from cur [c] = [cur @ [c]]"
| "splitlines_from cur (c # d # ds) =
     (if c = 13 \<and> d = 10 then (cur @ [c, d]) # splitlines_from [] ds
      else if is_linebreak c then (cur @ [c]) # splitlines_from [] (d # ds)
      else splitlines_from (cur @ [c]) (d # ds))"

definition splitlines :: "str \<Rightarrow> str list" where
  "splitlines s = splitlines_from [] s"

section \<open>The file system and the Read Tracker\<close>

text \<open>
  The workspace tools reach the disk through \<open>pathlib\<close>. The model keeps what they
  observe of it: the node at each resolved path, the resolution of a path
  (\<open>Path.resolve\<close>, which follows symbolic links), the expansion of a leading
  \<open>~\<close>, the paths the process may not read or write, and the text of an operating
  system error. A regular file holds the text that \<open>_read_with_encoding_fallback\<close>
  decodes and the encoding under which it does; Latin-1 decodes every byte sequence,
  so the fallback always returns. Logging is not modelled.
\<close>

datatype encoding = Utf8 | Latin1

datatype fnode = Directory | RegularFile (file_text: str) (file_encoding: encoding)

datatype os_error =
  PermissionError | FileExistsError | NotADirectoryError | IsADirectoryError
  | UnicodeEncodeError | ValueError

record filesystem =
  nodes :: "str \<Rightarrow> fnode option"
  resolve :: "str \<Rightarrow> str"
  expand_home :: "str \<Rightarrow> str"
  read_denied :: "str set"
  write_denied :: "str set"
  error_text :: "os_error \<Rightarrow> str"

text \<open>
  The state the tools of one session share: the disk, and the \<open>_read_files\<close> set of
  the session's \<open>ReadTracker\<close>. \<open>create_default_registry\<close> hands the same tracker to
  \<open>ReadFileTool\<close> and \<open>EditFileTool\<close>; \<open>None\<close> is a registry built with
  \<open>read_tracker=None\<close>.
\<close>

record world =
  fs :: filesystem
  read_tracker :: "str set option"

definition mark_as_read :: "filesystem \<Rightarrow> str set \<Rightarrow> str \<Rightarrow> str set" where
  "mark_as_read f read_files file_path = insert (resolve f file_path) read_files"

definition is_read :: "filesystem \<Rightarrow> str set \<Rightarrow> str \<Rightarrow> bool" where
  "is_read f read_files file_path \<longleftrightarrow> resolve f file_path \<in> read_files"

record ToolResult =
  content :: str
  display :: str

definition MAX_FILE_SIZE_BYTES :: nat where
  "MAX_FILE_SIZE_BYTES = 256 * 1024"

definition MAX_TOKENS :: nat where
  "MAX_TOKENS = 25000"

definition DEFAULT_MAX_LINES :: int where
  "DEFAULT_MAX_LINES = 1000"

definition CONTEXT_LINES :: nat where
  "CONTEXT_LINES = 4"

subsection \<open>\<open>FileSystemToolMixin\<close>\<close>

definition is_absolute :: "str \<Rightarrow> bool" where
  "is_absolute p = (case p of [] \<Rightarrow> False | c # _ \<Rightarrow> c = 47)"

definition check_absolute_path :: "str \<Rightarrow> str option" where
  "check_absolute_path path =
     (if \<not> is_absolute path
      then Some (u ''Path must be absolute, but got relative path: '' @ path)
      else None)"

text \<open>
  \<open>file_path.relative_to(root)\<close> succeeds when the components of the root are the
  first components of the path; both paths are resolved, hence absolute.
\<close>

definition path_parts :: "str \<Rightarrow> str list" where
  "path_parts p = filter (\<lambda>x. x \<noteq> [] \<and> x \<noteq> u ''.'') (split_char 47 p)"

definition check_within_workspace :: "str \<Rightarrow> str \<Rightarrow> str option" where
  "check_within_workspace workspace_root file_path =
     (if prefix (path_parts workspace_root) (path_parts file_path) then None
      else Some (u ''Path must be within workspace root ('' @ workspace_root
                 @ u ''), but got: '' @ file_path))"

definition expanduser :: "filesystem \<Rightarrow> str \<Rightarrow> str" where
  "expanduser f path = (case path of [] \<Rightarrow> path | c # _ \<Rightarrow> if c = 126 then expand_home f path else path)"

definition resolve_path :: "filesystem \<Rightarrow> str \<Rightarrow> str" where
  "resolve_path f path = resolve f (expanduser f path)"

definition estimate_tokens :: "str \<Rightarrow> nat" where
  "estimate_tokens c = length c div 4"

definition check_token_limit :: "str \<Rightarrow> nat \<Rightarrow> str option" where
  "check_token_limit c max_tokens =
     (let token_count = estimate_tokens c
      in if max_tokens < token_count
         then Some (u ''Content ('' @ fmt_comma token_count @ u '' tokens) exceeds maximum (''
                    @ fmt_comma max_tokens @ u '' tokens). Please reduce the content size.'')
         else None)"

definition create_error_result :: "str \<Rightarrow> str \<Rightarrow> ToolResult" where
  "create_error_result error_msg display_msg =
     \<lparr>content = u ''Error: '' @ error_msg, display = cross_mark @ u '' '' @ display_msg\<rparr>"

text \<open>
  \<open>_find_occurrence_lines\<close>: the loop looks for the next occurrence from
  \<open>start_pos\<close> and moves one character past it.
\<close>

definition count_char :: "nat \<Rightarrow> str \<Rightarrow> nat" where
  "count_char c s = length (filter (\<lambda>x. x = c) s)"

lemma find_first_le: "find_first sub s = Some i \<Longrightarrow> i \<le> length s"
  by (induction s arbitrary: i) (auto split: if_splits)

lemma str_find_bounds: "str_find s sub start = Some pos \<Longrightarrow> start \<le> pos \<and> pos \<le> length s"
  by (auto simp: str_find_def split: if_splits dest!: find_first_le)

function find_occurrence_lines_from :: "str \<Rightarrow> str \<Rightarrow> nat \<Rightarrow> nat list" where
  "find_occurrence_lines_from c search_string start_pos =
     (case str_find c search_string start_pos of
        None \<Rightarrow> []
      | Some pos \<Rightarrow>
          (count_char 10 (take pos c) + 1) # find_occurrence_lines_from c search_string (pos + 1))"
  by pat_completeness auto
termination
  by (relation "measure (\<lambda>(c, s, start_pos). Suc (length c) - start_pos)")
     (auto dest!: str_find_bounds)

declare find_occurrence_lines_from.simps [simp del]

definition find_occurrence_lines :: "str \<Rightarrow> str \<Rightarrow> nat list" where
  "find_occurrence_lines c search_string = find_occurrence_lines_from c search_string 0"

text \<open>\<open>str\<close> of a list of integers, as an f-string prints it.\<close>

definition str_nat_list :: "nat list \<Rightarrow> str" where
  "str_nat_list ns = u ''['' @ str_join (u '', '') (map str_nat ns) @ u '']''"

fun number_lines :: "int \<Rightarrow> str list \<Rightarrow> str list" where
  "number_lines line_num [] = []"
| "number_lines line_num (l # ls) = (fmt_6d line_num @ arrow @ l) # number_lines (line_num + 1) ls"

definition format_with_line_numbers :: "str \<Rightarrow> int \<Rightarrow> str" where
  "format_with_line_numbers c start_line =
     (if c = [] then c else str_join [10] (number_lines start_line (split_char 10 c)))"

subsection \<open>\<open>read_file\<close>\<close>

definition utf8_size :: "str \<Rightarrow> nat" where
  "utf8_size s =
     sum_list (map (\<lambda>c. if c < 128 then 1 else if c < 2048 then 2 else if c < 65536 then 3 else 4) s)"

text \<open>\<open>stat().st_size\<close> of a regular file: the length of its text in its encoding.\<close>

definition st_size :: "str \<Rightarrow> encoding \<Rightarrow> nat" where
  "st_size txt e = (case e of Utf8 \<Rightarrow> utf8_size txt | Latin1 \<Rightarrow> length txt)"

definition check_file_size :: "nat \<Rightarrow> bool \<Rightarrow> str option" where
  "check_file_size file_size has_pagination =
     (if MAX_FILE_SIZE_BYTES < file_size \<and> \<not> has_pagination
      then Some (u ''File size ('' @ fmt_kb_1f file_size @ u ''KB) exceeds maximum (256KB). ''
                 @ u ''Please use start_line and end_line parameters to read specific portions.'')
      else None)"

text \<open>
  The result of a successful read: the numbered lines, with the note on truncation, and
  the summary for display.
\<close>

definition read_success :: "str \<Rightarrow> int \<Rightarrow> int \<Rightarrow> int \<Rightarrow> int \<Rightarrow> bool \<Rightarrow> ToolResult" where
  "read_success c actual_start_line actual_end_line num_lines n was_truncated =
     (let formatted_content = format_with_line_numbers c actual_start_line;
          truncation_note =
            u [CHR 0x0A, CHR 0x0A] @ u ''<system-reminder>Note: File has '' @ str_int n
            @ u '' total lines, but only showing lines '' @ str_int actual_start_line
            @ u ''-'' @ str_int actual_end_line @ u '' (default limit: ''
            @ str_int DEFAULT_MAX_LINES @ u '' lines). ''
            @ u ''Use start_line and end_line parameters to read other portions of the file.''
            @ u ''</system-reminder>'';
          line_range = u ''lines '' @ str_int actual_start_line @ u ''-'' @ str_int actual_end_line;
          display_msg =
            (if was_truncated
             then check_mark @ u '' Read '' @ line_range @ u '' ('' @ str_int num_lines
                  @ u ''/'' @ str_int n @ u '' lines)''
             else check_mark @ u '' Read '' @ line_range @ u '' ('' @ str_int num_lines
                  @ u '' lines)'')
      in \<lparr>content = (if was_truncated then formatted_content @ truncation_note
                      else formatted_content),
          display = display_msg\<rparr>)"

text \<open>
  Steps 7 to 10 of \<open>ReadFileTool.execute\<close>, on the decoded text: the line range, the
  token guard, the numbered output. \<open>Inl\<close> is an error result, \<open>Inr\<close> the result of
  a successful read. \<open>read_file\<close> builds its error results in place, in the shape of
  \<open>_create_error_result\<close>.
\<close>

definition read_lines :: "str \<Rightarrow> int option \<Rightarrow> int option \<Rightarrow> ToolResult + ToolResult" where
  "read_lines file_content start_line end_line =
     (let lines = splitlines file_content;
          n = int (length lines);
          start_idx = (case start_line of None \<Rightarrow> 0 | Some sl \<Rightarrow> if sl = 0 then 0 else sl - 1);
          end_idx = min (case end_line of Some el \<Rightarrow> el | None \<Rightarrow> start_idx + DEFAULT_MAX_LINES) n
      in if start_idx < 0 \<or> n \<le> start_idx then
           (let error_msg = u ''Invalid start_line '' @ str_opt_int start_line @ u '' (file has ''
                            @ str_int n @ u '' lines)''
            in Inl (create_error_result error_msg error_msg))
         else if end_idx < start_idx then
           (let error_msg = u ''Invalid end_line '' @ str_opt_int end_line
                            @ u '' (must be >= start_line)''
            in Inl (create_error_result error_msg error_msg))
         else
           (let selected_lines = drop (nat start_idx) (take (nat end_idx) lines);
                c = concat selected_lines;
                actual_start_line = (case start_line of None \<Rightarrow> 1 | Some sl \<Rightarrow> if sl = 0 then 1 else sl);
                actual_end_line = actual_start_line + int (length selected_lines) - 1;
                was_truncated = (end_idx < n \<and> end_line = None)
            in case check_token_limit c MAX_TOKENS of
                 Some error \<Rightarrow>
                   Inl (create_error_result error (u ''Content too large (>25,000 tokens)''))
               | None \<Rightarrow>
                   Inr (read_success c actual_start_line actual_end_line
                          (int (length selected_lines)) n was_truncated)))"

definition read_file :: "str \<Rightarrow> world \<Rightarrow> str \<Rightarrow> int option \<Rightarrow> int option \<Rightarrow> ToolResult \<times> world" where
  "read_file workspace_root w path start_line end_line =
     (case check_absolute_path path of
        Some error \<Rightarrow> (create_error_result error error, w)
      | None \<Rightarrow>
     (let file_path = resolve (fs w) path
      in case check_within_workspace workspace_root file_path of
        Some error \<Rightarrow> (create_error_result error (u ''Access denied: outside workspace''), w)
      | None \<Rightarrow>
     (case nodes (fs w) file_path of
        None \<Rightarrow> (create_error_result (u ''File not found: '' @ path) (u ''File not found''), w)
      | Some Directory \<Rightarrow>
          (create_error_result (u ''Path is not a file: '' @ path) (u ''Not a file''), w)
      | Some (RegularFile file_content encoding) \<Rightarrow>
     (let has_pagination = (start_line \<noteq> None \<or> end_line \<noteq> None)
      in case check_file_size (st_size file_content encoding) has_pagination of
        Some error \<Rightarrow> (create_error_result error (u ''File too large (>256KB)''), w)
      | None \<Rightarrow>
     (if file_path \<in> read_denied (fs w) then
          (create_error_result (u ''Permission denied reading file: '' @ path)
             (u ''Permission denied''), w)
      else
     (case read_lines file_content start_line end_line of
        Inl err \<Rightarrow> (err, w)
      | Inr res \<Rightarrow>
          (res, w\<lparr>read_tracker :=
                    (case read_tracker w of
                       None \<Rightarrow> None
                     | Some read_files \<Rightarrow> Some (mark_as_read (fs w) read_files file_path))\<rparr>)))))))"

subsection \<open>\<open>write_file\<close>\<close>

text \<open>
  \<open>file_path.parent.mkdir(parents=True, exist_ok=True)\<close> over the proper ancestors
  of the path below the root directory, outermost first: a missing one is created,
  and one that is a regular file is an error. In a directory tree the error comes
  before any directory is created, so a failed call leaves the disk as it was.
\<close>

definition ancestors :: "str \<Rightarrow> str list" where
  "ancestors p =
     (let ps = path_parts p
      in map (\<lambda>k. concat (map (\<lambda>x. 47 # x) (take k ps))) [1..<length ps])"

fun mkdir_parents :: "filesystem \<Rightarrow> str list \<Rightarrow> os_error + filesystem" where
  "mkdir_parents f [] = Inr f"
| "mkdir_parents f (d # ds) =
     (case nodes f d of
        Some Directory \<Rightarrow> mkdir_parents f ds
      | Some (RegularFile t e) \<Rightarrow> Inl (if ds = [] then FileExistsError else NotADirectoryError)
      | None \<Rightarrow>
          (if d \<in> write_denied f then Inl PermissionError
           else mkdir_parents (f\<lparr>nodes := (nodes f)(d \<mapsto> Directory)\<rparr>) ds))"

text \<open>
  Whether \<open>s.encode(encoding)\<close> succeeds: UTF-8 refuses the surrogates, Latin-1 every
  code point from 256 on.
\<close>

definition encodable :: "encoding \<Rightarrow> str \<Rightarrow> bool" where
  "encodable e s =
     (case e of
        Utf8 \<Rightarrow> list_all (\<lambda>c. \<not> (55296 \<le> c \<and> c \<le> 57343)) s
      | Latin1 \<Rightarrow> list_all (\<lambda>c. c < 256) s)"

text \<open>
  Opening a path for writing and writing a text to it. Opening truncates the file, so
  a text that cannot be encoded leaves it empty.
\<close>

definition write_text :: "filesystem \<Rightarrow> str \<Rightarrow> str \<Rightarrow> encoding \<Rightarrow> os_error + filesystem" where
  "write_text f file_path txt e =
     (if nodes f file_path = Some Directory then Inl IsADirectoryError
      else if file_path \<in> write_denied f then Inl PermissionError
      else Inr (f\<lparr>nodes := (nodes f)(file_path \<mapsto> RegularFile txt e)\<rparr>))"

text \<open>The results of \<open>WriteFileTool.execute\<close>: of its two exception handlers, and of a write.\<close>

definition write_raised :: "filesystem \<Rightarrow> str \<Rightarrow> os_error \<Rightarrow> ToolResult" where
  "write_raised f path e =
     (if e = PermissionError then
        create_error_result (u ''Permission denied writing file: '' @ path)
          (u ''Permission denied: '' @ path)
      else
        create_error_result
          (u ''Unexpected error writing file: '' @ path @ u '' - '' @ error_text f e)
          (u ''Error writing '' @ path @ u '': '' @ error_text f e))"

definition write_success :: "str \<Rightarrow> str \<Rightarrow> bool \<Rightarrow> ToolResult" where
  "write_success path c file_existed =
     (let lines = count_char 10 c + 1;
          chars = length c;
          action = (if file_existed then u ''Updated'' else u ''Created'');
          action_lower = (if file_existed then u ''updated'' else u ''created'')
      in \<lparr>content = u ''Successfully '' @ action_lower @ u '' file: '' @ path
                      @ u '' ('' @ str_nat lines @ u '' lines, '' @ str_nat chars
                      @ u '' characters)'',
          display = check_mark @ u '' '' @ action @ u '' '' @ path @ u '' (''
                    @ str_nat lines @ u '' lines)''\<rparr>)"

definition write_file :: "str \<Rightarrow> world \<Rightarrow> str \<Rightarrow> str \<Rightarrow> ToolResult \<times> world" where
  "write_file workspace_root w path c =
     (case check_absolute_path path of
        Some error \<Rightarrow> (create_error_result error (u ''Path must be absolute''), w)
      | None \<Rightarrow>
     (let file_path = resolve_path (fs w) path
      in case check_within_workspace workspace_root file_path of
        Some error \<Rightarrow> (create_error_result error (u ''Access denied: outside workspace''), w)
      | None \<Rightarrow>
     (case check_token_limit c MAX_TOKENS of
        Some error \<Rightarrow> (create_error_result error (u ''Content too large (>25,000 tokens)''), w)
      | None \<Rightarrow>
     (case mkdir_parents (fs w) (ancestors file_path) of
        Inl e \<Rightarrow> (write_raised (fs w) path e, w)
      | Inr f1 \<Rightarrow>
     (let file_existed = (nodes f1 file_path \<noteq> None)
      in if \<not> encodable Utf8 c then
           (case write_text f1 file_path [] Utf8 of
              Inl e \<Rightarrow> (write_raised (fs w) path e, w\<lparr>fs := f1\<rparr>)
            | Inr f2 \<Rightarrow> (write_raised (fs w) path UnicodeEncodeError, w\<lparr>fs := f2\<rparr>))
         else
           (case write_text f1 file_path c Utf8 of
              Inl e \<Rightarrow> (write_raised (fs w) path e, w\<lparr>fs := f1\<rparr>)
            | Inr f2 \<Rightarrow> (write_success path c file_existed, w\<lparr>fs := f2\<rparr>)))))))"

subsection \<open>\<open>edit_file\<close>\<close>

definition generate_edit_snippet :: "str \<Rightarrow> nat \<Rightarrow> str \<Rightarrow> nat \<Rightarrow> str \<times> nat" where
  "generate_edit_snippet c replacement_line new_content context_lines =
     (let lines = split_char 10 c;
          num_new_lines = count_char 10 new_content;
          start_line = replacement_line - context_lines;
          end_line = min (length lines) (replacement_line + num_new_lines + 1 + context_lines);
          snippet_lines = drop start_line (take end_line lines);
          snippet_content = str_join [10] snippet_lines;
          formatted_snippet = format_with_line_numbers snippet_content (int start_line + 1)
      in (formatted_snippet, start_line + 1))"

text \<open>The result of a successful edit (steps 14 and 15 of \<open>EditFileTool.execute\<close>).\<close>

definition edit_success :: "str \<Rightarrow> str \<Rightarrow> str \<Rightarrow> str \<Rightarrow> nat \<Rightarrow> bool \<Rightarrow> ToolResult" where
  "edit_success file_path before new_file_content new_string num_replacements replace_all =
     (let replacement_line = count_char 10 before;
          (snippet, snippet_start_line) =
             generate_edit_snippet new_file_content replacement_line new_string CONTEXT_LINES;
          action = (if replace_all then u ''all occurrences'' else u ''occurrence'')
      in \<lparr>content = u ''Successfully edited '' @ file_path @ u ''. Replaced ''
                      @ str_nat num_replacements @ u '' '' @ action
                      @ u '' of old_string with new_string.'' @ u [CHR 0x0A, CHR 0x0A]
                      @ u ''Here's a snippet of the edited file showing the changes (lines ''
                      @ str_nat snippet_start_line @ u ''-''
                      @ str_nat (snippet_start_line + count_char 10 snippet) @ u ''):''
                      @ u [CHR 0x0A] @ snippet @ u [CHR 0x0A, CHR 0x0A]
                      @ u ''Review the changes and make sure they are as expected. ''
                      @ u ''Edit the file again if necessary.'',
          display = check_mark @ u '' Edited '' @ file_path @ u '' ('' @ str_nat num_replacements
                    @ u '' replacement'' @ (if 1 < num_replacements then u ''s'' else [])
                    @ u '')''\<rparr>)"

definition not_found_error :: "str \<Rightarrow> ToolResult" where
  "not_found_error file_path =
     create_error_result
       (u ''old_string not found in file. The string to replace does not appear ''
        @ u ''verbatim in '' @ file_path @ u ''. Make sure to match the exact content including ''
        @ u ''whitespace and indentation.'')
       (u ''String not found'')"

definition not_unique_error :: "str \<Rightarrow> str \<Rightarrow> nat \<Rightarrow> ToolResult" where
  "not_unique_error file_content old_string occurrences =
     create_error_result
       (u ''Multiple occurrences of old_string found in lines ''
        @ str_nat_list (find_occurrence_lines file_content old_string)
        @ u ''. Please ensure it is unique by providing more context, or set replace_all=True ''
        @ u ''to replace all '' @ str_nat occurrences @ u '' occurrences.'')
       (u ''Not unique ('' @ str_nat occurrences @ u '' occurrences)'')"

text \<open>
  Steps 8 to 15 of \<open>EditFileTool.execute\<close>, once the file has been read from the
  disk. The result is paired with the disk after the call. Splitting the text at an
  empty \<open>old_string\<close> raises \<open>ValueError\<close>, after the file has been written.
\<close>

definition edit_text ::
  "filesystem \<Rightarrow> str \<Rightarrow> str \<Rightarrow> str \<Rightarrow> encoding \<Rightarrow> str \<Rightarrow> str \<Rightarrow> bool \<Rightarrow> ToolResult \<times> filesystem" where
  "edit_text f file_path resolved_path file_content0 encoding old_string0 new_string0 replace_all =
     (let file_content = expandtabs file_content0;
          old_string = expandtabs old_string0;
          new_string = expandtabs new_string0
      in if old_string = new_string then
           (create_error_result (u ''old_string is identical to new_string. No replacement needed.'')
              (u ''No changes to make''), f)
         else
     (let occurrences = str_count file_content old_string
      in if occurrences = 0 then (not_found_error file_path, f)
         else if 1 < occurrences \<and> \<not> replace_all then
           (not_unique_error file_content old_string occurrences, f)
         else
     (let new_file_content = (if replace_all then str_replace file_content old_string new_string
                              else str_replace_first file_content old_string new_string);
          num_replacements = (if replace_all then occurrences else 1)
      in case check_token_limit new_file_content MAX_TOKENS of
           Some error \<Rightarrow>
             (create_error_result error (u ''Content too large (>25,000 tokens)''), f)
         | None \<Rightarrow>
     (let write_failed = (\<lambda>e.
            create_error_result (u ''Failed to write file: '' @ file_path)
              (u ''Write failed: '' @ error_text f e))
      in case write_text f resolved_path
                (if encodable encoding new_file_content then new_file_content else []) encoding of
           Inl e \<Rightarrow> (write_failed e, f)
         | Inr f' \<Rightarrow>
             if \<not> encodable encoding new_file_content then (write_failed UnicodeEncodeError, f')
             else
     (case split_head file_content old_string of
        None \<Rightarrow>
          (create_error_result (u ''Unexpected error editing file: '' @ file_path)
             (u ''Error: '' @ error_text f ValueError), f')
      | Some before \<Rightarrow>
          (edit_success file_path before new_file_content new_string num_replacements replace_all,
           f'))))))"

definition edit_file :: "str \<Rightarrow> world \<Rightarrow> str \<Rightarrow> str \<Rightarrow> str \<Rightarrow> bool \<Rightarrow> ToolResult \<times> world" where
  "edit_file workspace_root w file_path old_string new_string replace_all =
     (case check_absolute_path file_path of
        Some error \<Rightarrow> (create_error_result error (u ''Path must be absolute''), w)
      | None \<Rightarrow>
     (let resolved_path = resolve_path (fs w) file_path
      in case check_within_workspace workspace_root resolved_path of
        Some error \<Rightarrow> (create_error_result error (u ''Access denied: outside workspace''), w)
      | None \<Rightarrow>
     (case nodes (fs w) resolved_path of
        None \<Rightarrow>
          (create_error_result (u ''File not found: '' @ file_path) (u ''File not found''), w)
      | Some Directory \<Rightarrow>
          (create_error_result (u ''Path is not a file: '' @ file_path) (u ''Not a file''), w)
      | Some (RegularFile file_content encoding) \<Rightarrow>
     (if (case read_tracker w of
            None \<Rightarrow> False
          | Some read_files \<Rightarrow> \<not> is_read (fs w) read_files resolved_path) then
          (create_error_result
             (u ''File has not been read yet: '' @ file_path
              @ u ''. You must use read_file tool at least once before editing.'')
             (u ''Must read file before editing''), w)
      else if resolved_path \<in> read_denied (fs w) then
          (create_error_result (u ''Permission denied editing file: '' @ file_path)
             (u ''Permission denied''), w)
      else
     (let (res, f') = edit_text (fs w) file_path resolved_path file_content encoding
                        old_string new_string replace_all
      in (res, w\<lparr>fs := f'\<rparr>))))))"

section \<open>Messages\<close>

datatype json =
  JNull | JBool bool | JInt int | JFloat real | JStr str | JArr "json list"
  | JObj "(str \<times> json) list"

text \<open>
  The two functions of Python's \<open>json\<close> module the engine calls: \<open>json.loads\<close>,
  with \<open>Inl\<close> the text of the \<open>JSONDecodeError\<close>, and \<open>json.dumps(_, indent=2)\<close>.
\<close>

record json_lib =
  loads :: "str \<Rightarrow> str + json"
  dumps_indent2 :: "json \<Rightarrow> str"

text \<open>The truth value of a parsed JSON value, as \<open>if arguments:\<close> tests it.\<close>

fun json_truthy :: "json \<Rightarrow> bool" where
  "json_truthy JNull = False"
| "json_truthy (JBool b) = b"
| "json_truthy (JInt i) = (i \<noteq> 0)"
| "json_truthy (JFloat r) = (r \<noteq> 0)"
| "json_truthy (JStr x) = (x \<noteq> [])"
| "json_truthy (JArr xs) = (xs \<noteq> [])"
| "json_truthy (JObj kvs) = (kvs \<noteq> [])"

datatype MessageRole = SYSTEM | USER | ASSISTANT | TOOL

record ContentBlock =
  block_type :: str
  block_text :: "str option"
  image_url :: "json option"

datatype message_content = Text str | Blocks "ContentBlock list"

text \<open>\<open>ToolCall.function\<close> is a dictionary with the keys \<open>name\<close> and \<open>arguments\<close>.\<close>

record ToolCall =
  tc_id :: str
  tc_type :: str
  tc_function :: "str \<Rightarrow> str option"

record Message =
  role :: MessageRole
  mcontent :: message_content
  name :: "str option"
  tool_calls :: "ToolCall list option"
  tool_call_id :: "str option"

record LLMResponse =
  rcontent :: str
  rtool_calls :: "ToolCall list"
  model :: str
  finish_reason :: str

definition has_tool_calls :: "LLMResponse \<Rightarrow> bool" where
  "has_tool_calls r \<longleftrightarrow> 0 < length (rtool_calls r)"

datatype py_error = TypeError str | KeyError str | RuntimeError str

text \<open>\<open>str(e)\<close>; the text of a \<open>KeyError\<close> is the \<open>repr\<close> of the key.\<close>

definition error_str :: "py_error \<Rightarrow> str" where
  "error_str e =
     (case e of TypeError m \<Rightarrow> m | KeyError k \<Rightarrow> u [CHR 0x27] @ k @ u [CHR 0x27] | RuntimeError m \<Rightarrow> m)"

section \<open>Context Engine\<close>

text \<open>
  The events of the trajectory, with the fields the engine computes; \<open>extra_data\<close>
  (model name, token usage, duration) is left out. The trajectory of an engine
  without a writer is \<open>None\<close>. The conversation snapshot of \<open>write_llm_messages\<close>
  only reads the ledger and catches its own exceptions; it is not modelled.
\<close>

datatype trajectory_event =
  UserMessageEvent str message_content
  | AssistantResponseEvent "str option" int str "ToolCall list"
  | ToolResultEvent (ev_prompt_id: "str option") (ev_iteration: int) (ev_tool_call_id: str)
      (ev_content: str) (tool_success: bool) (ev_tool_name: "str option")
      (ev_arguments: "json option")
  | ToolCallSanitizedEvent "str option" Message message_content

record ContextEngine =
  session_id :: str
  prompt_counter :: nat
  current_prompt_id :: "str option"
  messages :: "Message list"
  current_iteration :: int
  final_response :: "str option"
  trajectory :: "trajectory_event list option"

definition trajectory_write :: "trajectory_event \<Rightarrow> ContextEngine \<Rightarrow> ContextEngine" where
  "trajectory_write ev ce =
     ce\<lparr>trajectory := (case trajectory ce of None \<Rightarrow> None | Some evs \<Rightarrow> Some (evs @ [ev]))\<rparr>"

text \<open>The format \<open>prompt_{n:03d}\<close>.\<close>

definition prompt_id_of :: "nat \<Rightarrow> str" where
  "prompt_id_of n = u ''prompt_'' @ replicate (3 - length (str_nat n)) 48 @ str_nat n"

definition add_user_message :: "message_content \<Rightarrow> ContextEngine \<Rightarrow> ContextEngine" where
  "add_user_message c ce =
     (let n = prompt_counter ce + 1;
          pid = prompt_id_of n
      in trajectory_write (UserMessageEvent pid c)
           (ce\<lparr>prompt_counter := n,
               current_prompt_id := Some pid,
               current_iteration := 0,
               messages := messages ce
                 @ [\<lparr>role = USER, mcontent = c, name = None, tool_calls = None,
                      tool_call_id = None\<rparr>]\<rparr>))"

definition add_assistant_message :: "LLMResponse \<Rightarrow> int option \<Rightarrow> ContextEngine \<Rightarrow> ContextEngine" where
  "add_assistant_message response iteration ce =
     (let it = (case iteration of Some i \<Rightarrow> i | None \<Rightarrow> current_iteration ce + 1);
          assistant_message =
            \<lparr>role = ASSISTANT, mcontent = Text (rcontent response), name = None,
             tool_calls = (if rtool_calls response \<noteq> [] then Some (rtool_calls response) else None),
             tool_call_id = None\<rparr>;
          ce1 = ce\<lparr>current_iteration := it, messages := messages ce @ [assistant_message]\<rparr>;
          ce2 = (if rtool_calls response = [] then ce1\<lparr>final_response := Some (rcontent response)\<rparr>
                 else ce1)
      in trajectory_write
           (AssistantResponseEvent (current_prompt_id ce2) it (rcontent response)
              (rtool_calls response)) ce2)"

definition add_tool_result ::
  "str \<Rightarrow> str \<Rightarrow> str option \<Rightarrow> json option \<Rightarrow> bool \<Rightarrow> ContextEngine \<Rightarrow> ContextEngine" where
  "add_tool_result tcid result tool_name arguments success ce =
     (let tool_message =
            \<lparr>role = TOOL, mcontent = Text result, name = None, tool_calls = None,
             tool_call_id = Some tcid\<rparr>
      in trajectory_write
           (ToolResultEvent (current_prompt_id ce) (current_iteration ce) tcid result success
              (case tool_name of None \<Rightarrow> None | Some n \<Rightarrow> if n = [] then None else Some n)
              (case arguments of
                 None \<Rightarrow> None
               | Some a \<Rightarrow> if json_truthy a then Some a else None))
           (ce\<lparr>messages := messages ce @ [tool_message]\<rparr>))"

subsection \<open>Sanitizing an invalid tool call\<close>

definition has_tool_call :: "Message \<Rightarrow> str \<Rightarrow> bool" where
  "has_tool_call msg tcid \<longleftrightarrow>
     role msg = ASSISTANT \<and>
     (case tool_calls msg of None \<Rightarrow> False | Some tcs \<Rightarrow> list_ex (\<lambda>tc. tc_id tc = tcid) tcs)"

text \<open>The search \<open>for i in range(len(self._messages) - 1, -1, -1)\<close>, with \<open>n\<close> one above \<open>i\<close>.\<close>

fun find_target_idx :: "Message list \<Rightarrow> str \<Rightarrow> nat \<Rightarrow> nat option" where
  "find_target_idx msgs tcid 0 = None"
| "find_target_idx msgs tcid (Suc i) =
     (if has_tool_call (msgs ! i) tcid then Some i else find_target_idx msgs tcid i)"

definition format_tool_args :: "json_lib \<Rightarrow> ToolCall \<Rightarrow> str" where
  "format_tool_args js tc =
     (case loads js (case tc_function tc (u ''arguments'') of None \<Rightarrow> u ''{}'' | Some a \<Rightarrow> a) of
        Inl err \<Rightarrow> u ''<Invalid JSON format>''
      | Inr args \<Rightarrow> dumps_indent2 js args)"

definition tool_call_text :: "json_lib \<Rightarrow> str \<Rightarrow> ToolCall \<Rightarrow> str" where
  "tool_call_text js tcid tc =
     u ''- Tool: '' @ (case tc_function tc (u ''name'') of None \<Rightarrow> u ''unknown'' | Some n \<Rightarrow> n)
     @ u [CHR 0x0A] @ u ''  ID: '' @ tc_id tc @ u [CHR 0x0A] @ u ''  Arguments: ''
     @ (if tc_id tc = tcid then u ''<Invalid JSON format>'' else format_tool_args js tc)"

definition tool_calls_text :: "json_lib \<Rightarrow> str \<Rightarrow> ToolCall list \<Rightarrow> str" where
  "tool_calls_text js tcid tcs =
     u [CHR 0x0A, CHR 0x0A] @ u ''Tool calls attempted:'' @ u [CHR 0x0A]
     @ str_join [10] (map (tool_call_text js tcid) tcs)"

definition retry_instruction :: "str \<Rightarrow> str \<Rightarrow> str \<Rightarrow> str" where
  "retry_instruction tool_name tcid error_message =
     u ''Error: The previous tool call had invalid JSON format in the arguments. ''
     @ u ''Tool '' @ u [CHR 0x27] @ tool_name @ u [CHR 0x27] @ u '' (ID: '' @ tcid
     @ u '') failed with error: '' @ error_message @ u [CHR 0x0A, CHR 0x0A]
     @ u ''Please retry the tool call with VALID JSON format. Ensure that:'' @ u [CHR 0x0A]
     @ u ''- All strings are properly quoted'' @ u [CHR 0x0A]
     @ u ''- All special characters are properly escaped'' @ u [CHR 0x0A]
     @ u ''- The JSON structure is complete and well-formed'' @ u [CHR 0x0A]
     @ u ''- All brackets and braces are properly matched'' @ u [CHR 0x0A, CHR 0x0A]
     @ u ''Continue with the task using correct JSON format.''"

text \<open>
  \<open>(assistant_msg.content or "") + tool_calls_text\<close>: a text is extended, an empty
  list of blocks counts as the empty text, and a non-empty list of blocks cannot be
  added to a string.
\<close>

definition content_or_empty :: "message_content \<Rightarrow> py_error + str" where
  "content_or_empty c =
     (case c of
        Text s \<Rightarrow> Inr s
      | Blocks bs \<Rightarrow>
          if bs = [] then Inr []
          else Inl (TypeError (u ''can only concatenate list (not \"str\") to list'')))"

definition sanitize_invalid_tool_call ::
  "json_lib \<Rightarrow> str \<Rightarrow> str \<Rightarrow> str \<Rightarrow> ContextEngine \<Rightarrow> py_error + ContextEngine" where
  "sanitize_invalid_tool_call js tcid tool_name error_message ce =
     (case find_target_idx (messages ce) tcid (length (messages ce)) of
        None \<Rightarrow> Inr ce
      | Some target_idx \<Rightarrow>
          (let assistant_msg = messages ce ! target_idx;
               text = tool_calls_text js tcid
                        (case tool_calls assistant_msg of None \<Rightarrow> [] | Some tcs \<Rightarrow> tcs)
           in case content_or_empty (mcontent assistant_msg) of
                Inl e \<Rightarrow> Inl e
              | Inr c \<Rightarrow>
                  (let new_msg = \<lparr>role = ASSISTANT, mcontent = Text (c @ text), name = None,
                                  tool_calls = None, tool_call_id = None\<rparr>;
                       ce1 = ce\<lparr>messages := (messages ce)[target_idx := new_msg]\<rparr>;
                       ce2 = trajectory_write
                               (ToolCallSanitizedEvent (current_prompt_id ce1) assistant_msg
                                  (mcontent new_msg)) ce1
                   in Inr (add_user_message
                             (Text (retry_instruction tool_name tcid error_message)) ce2))))"

section \<open>Tool Executor\<close>

text \<open>
  A registered tool: its confirmation flag and \<open>tool.execute(**arguments)\<close>, which
  returns a \<open>ToolResult\<close> or (for backward compatibility) a string, or raises, and may
  change the state \<open>'w\<close> the tools work on.
\<close>

datatype tool_output = StrResult str | Result ToolResult

record 'w Tool =
  requires_confirmation :: bool
  execute :: "json \<Rightarrow> 'w \<Rightarrow> (py_error + tool_output) \<times> 'w"

text \<open>
  The executor. \<open>remote_service\<close> stands for \<open>RemoteToolExecutor.execute\<close> at a URL
  and an instance id: an HTTP exchange, which returns a \<open>ToolResult\<close> on every path.
  The metrics collector is not modelled.
\<close>

record 'w ToolExecutor =
  tool_registry :: "str \<Rightarrow> 'w Tool option"
  yolo_mode :: bool
  confirmation_callback :: "(str \<Rightarrow> str \<Rightarrow> json \<Rightarrow> bool) option"
  remote_enabled :: bool
  remote_url :: "str option"
  remote_instance_id :: "str option"
  remote_service :: "str \<Rightarrow> str \<Rightarrow> str \<Rightarrow> json \<Rightarrow> ToolResult"
  json_module :: json_lib

definition remote_executor :: "'w ToolExecutor \<Rightarrow> (str \<Rightarrow> json \<Rightarrow> ToolResult) option" where
  "remote_executor ex =
     (case (remote_url ex, remote_instance_id ex) of
        (Some url, Some inst) \<Rightarrow>
          if remote_enabled ex \<and> url \<noteq> [] \<and> inst \<noteq> [] then Some (remote_service ex url inst)
          else None
      | _ \<Rightarrow> None)"

datatype event =
  ToolConfirmationRequired str str json str
  | ToolStart str str json str
  | ToolDone (done_tool_call_id: str) (done_tool_name: str) (done_result: str)
      (done_display: "str option") (confirmed: bool) (done_arguments: "json option")
      (done_session_id: str)
  | LlmStart int str
  | LlmChunk str
  | LlmDone str bool "ToolCall list" str
  | AgentDone (done_final_response: str) (iterations: int) str
  | ErrorEvent str int

text \<open>The state one session works on: the Context Engine and the state of the tools.\<close>

record 'w session =
  engine :: ContextEngine
  tools_state :: 'w

definition handle_tool_not_found :: "str \<Rightarrow> str \<Rightarrow> str \<Rightarrow> 'w session \<Rightarrow> event list \<times> 'w session" where
  "handle_tool_not_found tcid tool_name sid st =
     (let error_msg = u ''Tool not found: '' @ tool_name;
          result = u ''Error: '' @ error_msg
      in ([ToolDone tcid tool_name result None False None sid],
          st\<lparr>engine := add_tool_result tcid result None None True (engine st)\<rparr>))"

definition handle_invalid_arguments ::
  "'w ToolExecutor \<Rightarrow> str \<Rightarrow> str \<Rightarrow> str \<Rightarrow> str \<Rightarrow> 'w session \<Rightarrow> py_error + event list \<times> 'w session" where
  "handle_invalid_arguments ex tcid tool_name error sid st =
     (let error_msg = u ''Invalid tool arguments JSON: '' @ error;
          result = u ''Error: '' @ error_msg
      in case sanitize_invalid_tool_call (json_module ex) tcid tool_name error (engine st) of
           Inl e \<Rightarrow> Inl e
         | Inr ce \<Rightarrow> Inr ([ToolDone tcid tool_name result None False None sid], st\<lparr>engine := ce\<rparr>))"

definition get_user_confirmation :: "'w ToolExecutor \<Rightarrow> str \<Rightarrow> str \<Rightarrow> json \<Rightarrow> bool" where
  "get_user_confirmation ex tool_name tcid arguments =
     (case confirmation_callback ex of
        Some cb \<Rightarrow> cb tool_name tcid arguments
      | None \<Rightarrow> False)"

definition handle_tool_rejection ::
  "str \<Rightarrow> str \<Rightarrow> json \<Rightarrow> str \<Rightarrow> 'w session \<Rightarrow> event list \<times> 'w session" where
  "handle_tool_rejection tcid tool_name arguments sid st =
     (let result = u ''Tool execution rejected by user: '' @ tool_name
      in ([ToolDone tcid tool_name result None False (Some arguments) sid],
          st\<lparr>engine := add_tool_result tcid result (Some tool_name) (Some arguments) False
                          (engine st)\<rparr>))"

text \<open>
  The \<open>try\<close> block of \<open>_execute_and_record\<close>: the result of the tool, the
  \<open>success\<close> flag and the state of the tools after it.
\<close>

definition run_tool ::
  "'w ToolExecutor \<Rightarrow> 'w Tool \<Rightarrow> str \<Rightarrow> json \<Rightarrow> 'w \<Rightarrow> ToolResult \<times> bool \<times> 'w" where
  "run_tool ex tool tool_name arguments w =
     (case remote_executor ex of
        Some remote \<Rightarrow>
          (let tool_result = remote tool_name arguments;
               success = (if str_contains (u ''Error:'') (content tool_result)
                             \<or> str_contains cross_mark (display tool_result)
                          then False else True)
           in (tool_result, success, w))
      | None \<Rightarrow>
          (case execute tool arguments w of
             (Inr (Result tool_result), w') \<Rightarrow> (tool_result, True, w')
           | (Inr (StrResult x), w') \<Rightarrow> (\<lparr>content = x, display = x\<rparr>, True, w')
           | (Inl e, w') \<Rightarrow>
               (\<lparr>content = u ''Tool execution error: '' @ error_str e,
                 display = cross_mark @ u '' Error: '' @ error_str e\<rparr>, False, w')))"

definition execute_and_record ::
  "'w ToolExecutor \<Rightarrow> 'w Tool \<Rightarrow> str \<Rightarrow> str \<Rightarrow> json \<Rightarrow> bool \<Rightarrow> str \<Rightarrow> 'w session
     \<Rightarrow> event list \<times> 'w session" where
  "execute_and_record ex tool tcid tool_name arguments is_confirmed sid st =
     (let (tool_result, success, w') = run_tool ex tool tool_name arguments (tools_state st)
      in ([ToolStart tcid tool_name arguments sid,
           ToolDone tcid tool_name (content tool_result) (Some (display tool_result)) is_confirmed
             (Some arguments) sid],
          \<lparr>engine = add_tool_result tcid (content tool_result) (Some tool_name) (Some arguments)
                      success (engine st),
           tools_state = w'\<rparr>))"

definition execute_tool_call ::
  "'w ToolExecutor \<Rightarrow> ToolCall \<Rightarrow> str \<Rightarrow> 'w session \<Rightarrow> py_error + event list \<times> 'w session" where
  "execute_tool_call ex tool_call sid st =
     (case tc_function tool_call (u ''name'') of
        None \<Rightarrow> Inl (KeyError (u ''name''))
      | Some tool_name \<Rightarrow>
     (case tool_registry ex tool_name of
        None \<Rightarrow> Inr (handle_tool_not_found (tc_id tool_call) tool_name sid st)
      | Some tool \<Rightarrow>
     (case tc_function tool_call (u ''arguments'') of
        None \<Rightarrow> Inl (KeyError (u ''arguments''))
      | Some args_text \<Rightarrow>
     (case loads (json_module ex) args_text of
        Inl error \<Rightarrow> handle_invalid_arguments ex (tc_id tool_call) tool_name error sid st
      | Inr arguments \<Rightarrow>
     (let needs_confirmation = (requires_confirmation tool \<and> \<not> yolo_mode ex);
          is_confirmed = (if needs_confirmation
                          then get_user_confirmation ex tool_name (tc_id tool_call) arguments
                          else True);
          confirmation_events =
            (if needs_confirmation
             then [ToolConfirmationRequired (tc_id tool_call) tool_name arguments sid] else [])
      in if \<not> is_confirmed then
           (let (evs, st') = handle_tool_rejection (tc_id tool_call) tool_name arguments sid st
            in Inr (confirmation_events @ evs, st'))
         else
           (let (evs, st') = execute_and_record ex tool (tc_id tool_call) tool_name arguments
                               is_confirmed sid st
            in Inr (confirmation_events @ evs, st')))))))"

section \<open>Agent Loop\<close>

datatype llm_chunk = ContentChunk str | ToolCallChunk ToolCall | DoneChunk str

text \<open>
  The LLM adapter as the loop sees it: \<open>generate\<close> answers a call without streaming
  with a response or an exception; \<open>generate_stream\<close> answers a streaming call with
  the chunks it delivers and the exception, if any, that ends the stream. Both may
  depend on a state \<open>'l\<close> of the service.
\<close>

record ('w, 'l) AgentLoop =
  generate :: "'l \<Rightarrow> Message list \<Rightarrow> (py_error + LLMResponse) \<times> 'l"
  generate_stream :: "'l \<Rightarrow> Message list \<Rightarrow> (llm_chunk list \<times> py_error option) \<times> 'l"
  llm_model :: str
  max_iterations :: int
  tool_executor :: "'w ToolExecutor"

record ('w, 'l) agent_state =
  session :: "'w session"
  llm_state :: 'l

definition build_llm_done_event :: "str \<Rightarrow> LLMResponse \<Rightarrow> event" where
  "build_llm_done_event sid r = LlmDone (rcontent r) (has_tool_calls r) (rtool_calls r) sid"

text \<open>
  \<open>_handle_streaming_llm\<close>: a content chunk is forwarded and collected, a tool call
  chunk is collected, the done chunk sets the finish reason.
\<close>

definition chunk_events :: "llm_chunk list \<Rightarrow> event list" where
  "chunk_events chunks =
     concat (map (\<lambda>c. case c of ContentChunk d \<Rightarrow> [LlmChunk d] | _ \<Rightarrow> []) chunks)"

definition assemble_response :: "str \<Rightarrow> llm_chunk list \<Rightarrow> LLMResponse" where
  "assemble_response mdl chunks =
     \<lparr>rcontent = concat (concat (map (\<lambda>c. case c of ContentChunk d \<Rightarrow> [d] | _ \<Rightarrow> []) chunks)),
      rtool_calls = concat (map (\<lambda>c. case c of ToolCallChunk tc \<Rightarrow> [tc] | _ \<Rightarrow> []) chunks),
      model = mdl,
      finish_reason = foldl (\<lambda>fr c. case c of DoneChunk r \<Rightarrow> r | _ \<Rightarrow> fr) [] chunks\<rparr>"

definition handle_streaming_llm ::
  "('w, 'l) AgentLoop \<Rightarrow> Message list \<Rightarrow> str \<Rightarrow> 'l \<Rightarrow> event list \<times> (py_error + LLMResponse) \<times> 'l" where
  "handle_streaming_llm a msgs sid l =
     (case generate_stream a l msgs of
        ((chunks, Some e), l') \<Rightarrow> (chunk_events chunks, Inl e, l')
      | ((chunks, None), l') \<Rightarrow>
          (let response = assemble_response (llm_model a) chunks
           in (chunk_events chunks @ [build_llm_done_event sid response], Inr response, l')))"

text \<open>
  The tool calls of one response, in order; an exception leaves the loop over the
  calls, with the events emitted so far.
\<close>

fun execute_tool_calls ::
  "'w ToolExecutor \<Rightarrow> ToolCall list \<Rightarrow> str \<Rightarrow> 'w session \<Rightarrow> event list \<times> py_error option \<times> 'w session" where
  "execute_tool_calls ex [] sid st = ([], None, st)"
| "execute_tool_calls ex (tc # tcs) sid st =
     (case execute_tool_call ex tc sid st of
        Inl e \<Rightarrow> ([], Some e, st)
      | Inr (evs, st') \<Rightarrow>
          (case execute_tool_calls ex tcs sid st' of
             (evs', err, st'') \<Rightarrow> (evs @ evs', err, st'')))"

text \<open>
  One pass through the body of the \<open>while\<close> loop, for the iteration number already
  incremented. The outcome says how the pass leaves the loop body: to the next
  iteration, by the \<open>break\<close> after a response without tool calls (with that
  response's text), or by the \<open>break\<close> of the exception handler.
\<close>

datatype outcome = NextIteration | Finished str | Failed

definition run_iteration ::
  "('w, 'l) AgentLoop \<Rightarrow> bool \<Rightarrow> int \<Rightarrow> ('w, 'l) agent_state
     \<Rightarrow> event list \<times> outcome \<times> ('w, 'l) agent_state" where
  "run_iteration a stream iteration st =
     (let sid = session_id (engine (session st));
          msgs = messages (engine (session st));
          (llm_events, answer, l') =
             (if stream then handle_streaming_llm a msgs sid (llm_state st)
              else (case generate a (llm_state st) msgs of
                      (Inl e, l') \<Rightarrow> ([], Inl e, l')
                    | (Inr r, l') \<Rightarrow> ([build_llm_done_event sid r], Inr r, l')))
      in case answer of
           Inl e \<Rightarrow>
             (LlmStart iteration sid # llm_events @ [ErrorEvent (error_str e) iteration], Failed,
              st\<lparr>llm_state := l'\<rparr>)
         | Inr llm_response \<Rightarrow>
             (let s1 = (session st)\<lparr>engine := add_assistant_message llm_response (Some iteration)
                                                (engine (session st))\<rparr>
              in if \<not> has_tool_calls llm_response then
                   (LlmStart iteration sid # llm_events, Finished (rcontent llm_response),
                    \<lparr>session = s1, llm_state = l'\<rparr>)
                 else
                   (case execute_tool_calls (tool_executor a) (rtool_calls llm_response) sid s1 of
                      (tool_events, None, s2) \<Rightarrow>
                        (LlmStart iteration sid # llm_events @ tool_events, NextIteration,
                         \<lparr>session = s2, llm_state = l'\<rparr>)
                    | (tool_events, Some e, s2) \<Rightarrow>
                        (LlmStart iteration sid # llm_events @ tool_events
                           @ [ErrorEvent (error_str e) iteration], Failed,
                         \<lparr>session = s2, llm_state = l'\<rparr>))))"

text \<open>
  The loop \<open>while iteration < self.max_iterations\<close>. It returns the events, the
  values of \<open>iteration\<close> and \<open>final_response\<close> on leaving the loop, and the state.
\<close>

function run_loop ::
  "('w, 'l) AgentLoop \<Rightarrow> bool \<Rightarrow> int \<Rightarrow> ('w, 'l) agent_state
     \<Rightarrow> event list \<times> int \<times> str \<times> ('w, 'l) agent_state" where
  "run_loop a stream iteration st =
     (if iteration < max_iterations a then
        (case run_iteration a stream (iteration + 1) st of
           (evs, NextIteration, st') \<Rightarrow>
             (case run_loop a stream (iteration + 1) st' of
                (evs', r) \<Rightarrow> (evs @ evs', r))
         | (evs, Finished txt, st') \<Rightarrow> (evs, iteration + 1, txt, st')
         | (evs, Failed, st') \<Rightarrow> (evs, iteration + 1, [], st'))
      else ([], iteration, [], st))"
  by pat_completeness auto
termination
  by (relation "measure (\<lambda>(a, stream, iteration, st). nat (max_iterations a - iteration))") auto

declare run_loop.simps [simp del]

definition MAX_ITERATIONS_MESSAGE :: str where
  "MAX_ITERATIONS_MESSAGE = u ''Maximum iterations reached. The task may not be complete.''"

definition run ::
  "('w, 'l) AgentLoop \<Rightarrow> message_content \<Rightarrow> bool \<Rightarrow> ('w, 'l) agent_state
     \<Rightarrow> event list \<times> ('w, 'l) agent_state" where
  "run a user_query stream st =
     (let st0 = st\<lparr>session := (session st)\<lparr>engine := add_user_message user_query
                                                        (engine (session st))\<rparr>\<rparr>;
          (evs, iteration, final_response0, st') = run_loop a stream 0 st0;
          final_response1 =
            (if max_iterations a \<le> iteration \<and> final_response0 = [] then MAX_ITERATIONS_MESSAGE
             else final_response0)
      in (evs @ [AgentDone final_response1 iteration (session_id (engine (session st')))], st'))"

section \<open>Retrying an LLM request\<close>

datatype llm_exception =
  RetryableError | TimeoutError | RateLimitError (retry_after: "real option")
  | APIError | AuthenticationError | ContextLengthExceededError | InvalidRequestError
  | ModelNotFoundError | SleepValueError

text \<open>
  \<open>isinstance(e, (RetryableError, RateLimitError, TimeoutError))\<close>, the default
  \<open>retryable_exceptions\<close>.
\<close>

fun should_retry :: "llm_exception \<Rightarrow> bool" where
  "should_retry RetryableError = True"
| "should_retry TimeoutError = True"
| "should_retry (RateLimitError ra) = True"
| "should_retry e = False"

text \<open>
  The wait before the next attempt; \<open>e.retry_after\<close> is tested for truth, so neither
  \<open>None\<close> nor zero is used. Delays are modelled as real numbers.
\<close>

definition get_retry_delay :: "int \<Rightarrow> llm_exception \<Rightarrow> real \<Rightarrow> real \<Rightarrow> real" where
  "get_retry_delay attempt e initial_delay exponential_base =
     (case e of
        RateLimitError (Some ra) \<Rightarrow>
          if ra \<noteq> 0 then ra else initial_delay * exponential_base ^ nat attempt
      | _ \<Rightarrow> initial_delay * exponential_base ^ nat attempt)"

datatype 'a retry_result = Returned 'a | Raised llm_exception | ReturnedNone

record 'a retry_run =
  result :: "'a retry_result"
  calls :: nat
  sleeps :: "real list"

text \<open>
  The wrapper of \<open>retry_on_failure\<close>. \<open>func k\<close> is what the \<open>k\<close>-th call of the
  decorated function does (counting from 0): return a value or raise. The run
  records how the wrapper ends, how many calls it made and the arguments of its
  calls of \<open>time.sleep\<close>, which raises \<open>ValueError\<close> for a negative argument.
\<close>

function retry_loop ::
  "int \<Rightarrow> real \<Rightarrow> real \<Rightarrow> (llm_exception \<Rightarrow> bool) \<Rightarrow> (nat \<Rightarrow> llm_exception + 'a)
     \<Rightarrow> int \<Rightarrow> llm_exception option \<Rightarrow> 'a retry_run" where
  "retry_loop max_retries initial_delay exponential_base retryable func attempt last_exception =
     (if attempt < max_retries then
        (case func (nat attempt) of
           Inr v \<Rightarrow> \<lparr>result = Returned v, calls = 1, sleeps = []\<rparr>
         | Inl e \<Rightarrow>
             if retryable e then
               (if attempt = max_retries - 1 then \<lparr>result = Raised e, calls = 1, sleeps = []\<rparr>
                else
                  (let wait_time = get_retry_delay attempt e initial_delay exponential_base
                   in if wait_time < 0 then
                        \<lparr>result = Raised SleepValueError, calls = 1, sleeps = []\<rparr>
                      else
                        (let r = retry_loop max_retries initial_delay exponential_base retryable
                                   func (attempt + 1) (Some e)
                         in r\<lparr>calls := calls r + 1, sleeps := wait_time # sleeps r\<rparr>)))
             else \<lparr>result = Raised e, calls = 1, sleeps = []\<rparr>)
      else
        \<lparr>result = (case last_exception of Some e \<Rightarrow> Raised e | None \<Rightarrow> ReturnedNone),
         calls = 0, sleeps = []\<rparr>)"
  by pat_completeness auto
termination
  by (relation "measure (\<lambda>(m, i, b, r, f, attempt, l). nat (m - attempt))") auto

declare retry_loop.simps [simp del]

definition retry_on_failure ::
  "int \<Rightarrow> real \<Rightarrow> real \<Rightarrow> (llm_exception \<Rightarrow> bool) \<Rightarrow> (nat \<Rightarrow> llm_exception + 'a) \<Rightarrow> 'a retry_run" where
  "retry_on_failure max_retries initial_delay exponential_base retryable func =
     retry_loop max_retries initial_delay exponential_base retryable func 0 None"

text \<open>The decorator as the provider applies it: \<open>@retry_on_failure(max_retries=3)\<close>.\<close>

definition retry_default :: "(nat \<Rightarrow> llm_exception + 'a) \<Rightarrow> 'a retry_run" where
  "retry_default func = retry_on_failure 3 1.0 2.0 should_retry func"

section \<open>A small session\<close>

text \<open>
  A workspace \<open>/ws\<close> with a file of one line and an empty file, where every path
  resolves to itself and nothing is denied; the tracker of a fresh session, and the
  tracker after \<open>/ws/a.txt\<close> has been read.
\<close>

definition example_fs :: filesystem where
  "example_fs =
     \<lparr>nodes = [u ''/ws'' \<mapsto> Directory,
               u ''/ws/a.txt'' \<mapsto> RegularFile (u ''hello'') Utf8,
               u ''/ws/empty.txt'' \<mapsto> RegularFile [] Utf8],
      resolve = (\<lambda>p. p),
      expand_home = (\<lambda>p. p),
      read_denied = {},
      write_denied = {},
      error_text = (\<lambda>e. [])\<rparr>"

definition example_world :: world where
  "example_world = \<lparr>fs = example_fs, read_tracker = Some {}\<rparr>"

definition example_world_read :: world where
  "example_world_read = \<lparr>fs = example_fs, read_tracker = Some {u ''/ws/a.txt''}\<rparr>"

section \<open>Results of the workspace tools\<close>

text \<open>
  An error result, as \<open>_create_error_result\<close> and the error paths of \<open>read_file\<close>
  build it: the content begins \<open>Error: \<close> and the display begins with the cross mark.
\<close>

definition is_error_result :: "ToolResult \<Rightarrow> bool" where
  "is_error_result r \<longleftrightarrow> prefix (u ''Error: '') (content r) \<and> prefix cross_mark (display r)"

definition must_read_error :: "str \<Rightarrow> ToolResult" where
  "must_read_error file_path =
     create_error_result
       (u ''File has not been read yet: '' @ file_path
        @ u ''. You must use read_file tool at least once before editing.'')
       (u ''Must read file before editing'')"

definition identical_error :: ToolResult where
  "identical_error =
     create_error_result (u ''old_string is identical to new_string. No replacement needed.'')
       (u ''No changes to make'')"

text \<open>
  A ledger in which the assistant has just asked for three tool calls: the first with
  arguments that are not JSON, the second well-formed, the third for a tool that is
  not registered, again with arguments that are not JSON. The JSON module rejects
  the text \<open>{broken\<close>.
\<close>

definition example_json :: json_lib where
  "example_json =
     \<lparr>loads = (\<lambda>s. if s = u ''{broken'' then Inl (u ''Expecting property name'')
                    else Inr (JObj [])),
      dumps_indent2 = (\<lambda>j. u ''{}'')\<rparr>"

definition call_broken :: ToolCall where
  "call_broken =
     \<lparr>tc_id = u ''tc_1'', tc_type = u ''function'',
      tc_function = [u ''name'' \<mapsto> u ''read_file'', u ''arguments'' \<mapsto> u ''{broken'']\<rparr>"

definition call_ok :: ToolCall where
  "call_ok =
     \<lparr>tc_id = u ''tc_2'', tc_type = u ''function'',
      tc_function = [u ''name'' \<mapsto> u ''read_file'', u ''arguments'' \<mapsto> u ''{}'']\<rparr>"

definition call_unknown :: ToolCall where
  "call_unknown =
     \<lparr>tc_id = u ''tc_3'', tc_type = u ''function'',
      tc_function = [u ''name'' \<mapsto> u ''no_such_tool'', u ''arguments'' \<mapsto> u ''{broken'']\<rparr>"

definition example_assistant :: Message where
  "example_assistant =
     \<lparr>role = ASSISTANT, mcontent = Text (u ''Let me look.''), name = None,
      tool_calls = Some [call_broken, call_ok, call_unknown], tool_call_id = None\<rparr>"

definition example_engine :: ContextEngine where
  "example_engine =
     \<lparr>session_id = u ''s1'',
      prompt_counter = 1,
      current_prompt_id = Some (prompt_id_of 1),
      messages =
        [\<lparr>role = SYSTEM, mcontent = Text (u ''You are an agent.''), name = None,
          tool_calls = None, tool_call_id = None\<rparr>,
         \<lparr>role = USER, mcontent = Text (u ''Read the file.''), name = None,
          tool_calls = None, tool_call_id = None\<rparr>,
         example_assistant],
      current_iteration = 1,
      final_response = None,
      trajectory = Some []\<rparr>"

text \<open>
  The built-in tools as the registry holds them. \<open>execute(**arguments)\<close> binds the
  entries of the parsed JSON object to the parameters of the tool; the binding is
  modelled for arguments of the declared types, and a call that does not bind is a
  \<open>TypeError\<close> for the executor.
\<close>

definition arg_str :: "json \<Rightarrow> str \<Rightarrow> str option" where
  "arg_str args k =
     (case args of
        JObj kvs \<Rightarrow> (case map_of kvs k of Some (JStr x) \<Rightarrow> Some x | _ \<Rightarrow> None)
      | _ \<Rightarrow> None)"

definition arg_int :: "json \<Rightarrow> str \<Rightarrow> int option" where
  "arg_int args k =
     (case args of
        JObj kvs \<Rightarrow> (case map_of kvs k of Some (JInt x) \<Rightarrow> Some x | _ \<Rightarrow> None)
      | _ \<Rightarrow> None)"

definition arg_bool :: "json \<Rightarrow> str \<Rightarrow> bool" where
  "arg_bool args k =
     (case args of
        JObj kvs \<Rightarrow> (case map_of kvs k of Some (JBool b) \<Rightarrow> b | _ \<Rightarrow> False)
      | _ \<Rightarrow> False)"

definition read_file_tool :: "str \<Rightarrow> world Tool" where
  "read_file_tool workspace_root =
     \<lparr>requires_confirmation = False,
      execute = (\<lambda>args w.
        case arg_str args (u ''path'') of
          None \<Rightarrow> (Inl (TypeError (u ''execute() missing required argument: path'')), w)
        | Some path \<Rightarrow>
            (case read_file workspace_root w path (arg_int args (u ''start_line''))
                    (arg_int args (u ''end_line'')) of
               (r, w') \<Rightarrow> (Inr (Result r), w')))\<rparr>"

definition edit_file_tool :: "str \<Rightarrow> world Tool" where
  "edit_file_tool workspace_root =
     \<lparr>requires_confirmation = True,
      execute = (\<lambda>args w.
        case (arg_str args (u ''file_path''), arg_str args (u ''old_string''),
              arg_str args (u ''new_string'')) of
          (Some file_path, Some old_string, Some new_string) \<Rightarrow>
            (case edit_file workspace_root w file_path old_string new_string
                    (arg_bool args (u ''replace_all'')) of
               (r, w') \<Rightarrow> (Inr (Result r), w'))
        | _ \<Rightarrow> (Inl (TypeError (u ''execute() missing required arguments'')), w))\<rparr>"

text \<open>
  An executor with local execution and automatic confirmation, the session it works
  on, and the parsed arguments of an \<open>edit_file\<close> call on \<open>/ws/a.txt\<close>.
\<close>

definition example_executor :: "world ToolExecutor" where
  "example_executor =
     \<lparr>tool_registry = [u ''read_file'' \<mapsto> read_file_tool (u ''/ws''),
                       u ''edit_file'' \<mapsto> edit_file_tool (u ''/ws'')],
      yolo_mode = True,
      confirmation_callback = None,
      remote_enabled = False,
      remote_url = None,
      remote_instance_id = None,
      remote_service = (\<lambda>url inst tool_name args. \<lparr>content = [], display = []\<rparr>),
      json_module = example_json\<rparr>"

definition example_session :: "world session" where
  "example_session = \<lparr>engine = example_engine, tools_state = example_world\<rparr>"

definition edit_args :: json where
  "edit_args =
     JObj [(u ''file_path'', JStr (u ''/ws/a.txt'')), (u ''old_string'', JStr (u ''hello'')),
           (u ''new_string'', JStr (u ''bye''))]"

text \<open>Decimal digits determine the number, also behind leading zeros.\<close>

definition digits_val :: "str \<Rightarrow> nat" where
  "digits_val s = foldl (\<lambda>a c. 10 * a + (c - 48)) 0 s"

text \<open>
  An agent whose model answers every call with a request for the unregistered tool,
  with a given iteration cap, and the state of a session before a query.
\<close>

definition example_agent :: "int \<Rightarrow> (world, unit) AgentLoop" where
  "example_agent cap =
     \<lparr>generate = (\<lambda>l msgs.
        (Inr \<lparr>rcontent = [], rtool_calls = [call_unknown], model = u ''m'',
              finish_reason = u ''tool_calls''\<rparr>, l)),
      generate_stream = (\<lambda>l msgs. (([], None), l)),
      llm_model = u ''m'',
      max_iterations = cap,
      tool_executor = example_executor\<rparr>"

definition example_agent_state :: "(world, unit) agent_state" where
  "example_agent_state = \<lparr>session = example_session, llm_state = ()\<rparr>"

text \<open>
  Two services for the retry wrapper: one answers the first call with a rate limit
  that carries \<open>retry_after = 0.1\<close> and the second call with a value; the other
  carries \<open>retry_after = 0\<close> instead.
\<close>

definition rate_limited_once :: "nat \<Rightarrow> llm_exception + unit" where
  "rate_limited_once k = (if k = 0 then Inl (RateLimitError (Some (1 / 10))) else Inr ())"

definition rate_limited_zero :: "nat \<Rightarrow> llm_exception + unit" where
  "rate_limited_zero k = (if k = 0 then Inl (RateLimitError (Some 0)) else Inr ())"

section \<open>Properties of the workspace tools\<close>

lemma create_error_result_is_error [simp]: "is_error_result (create_error_result m d)"
  by (simp add: is_error_result_def create_error_result_def)

lemma read_success_not_error [simp]: "\<not> is_error_result (read_success c a b k n t)"
  by (simp add: is_error_result_def read_success_def Let_def check_mark_def cross_mark_def)

lemma write_raised_is_error [simp]: "is_error_result (write_raised f path e)"
  by (simp add: write_raised_def)

lemma write_success_not_error [simp]: "\<not> is_error_result (write_success path c ex)"
  by (simp add: is_error_result_def write_success_def Let_def check_mark_def cross_mark_def)

lemma read_lines_Inl: "read_lines txt sl el = Inl r \<Longrightarrow> is_error_result r"
  unfolding read_lines_def Let_def
  by (auto split: if_splits option.splits)

lemma read_lines_Inr: "read_lines txt sl el = Inr r \<Longrightarrow> \<not> is_error_result r"
  unfolding read_lines_def Let_def
  by (auto split: if_splits option.splits)

lemma read_file_tracker:
  "read_tracker (snd (read_file ws w path sl el)) =
     (if is_error_result (fst (read_file ws w path sl el)) then read_tracker w
      else map_option (\<lambda>read_files. mark_as_read (fs w) read_files (resolve (fs w) path))
             (read_tracker w))"
  by (auto simp: read_file_def Let_def split: option.splits fnode.splits sum.splits
      dest: read_lines_Inl read_lines_Inr)

lemma mkdir_parents_fields:
  "mkdir_parents f ds = Inr f' \<Longrightarrow>
     resolve f' = resolve f \<and> expand_home f' = expand_home f \<and> read_denied f' = read_denied f
     \<and> write_denied f' = write_denied f \<and> error_text f' = error_text f"
  by (induction ds arbitrary: f) (auto split: option.splits fnode.splits if_splits)

lemma write_text_fields:
  "write_text f p t e = Inr f' \<Longrightarrow>
     resolve f' = resolve f \<and> expand_home f' = expand_home f \<and> read_denied f' = read_denied f
     \<and> write_denied f' = write_denied f \<and> error_text f' = error_text f
     \<and> nodes f' p = Some (RegularFile t e)"
  by (auto simp: write_text_def split: if_splits)

lemma write_file_tracker: "read_tracker (snd (write_file ws w path c)) = read_tracker w"
  by (simp add: write_file_def Let_def split: option.split sum.split)

lemma edit_file_tracker: "read_tracker (snd (edit_file ws w p old new ra)) = read_tracker w"
  by (simp add: edit_file_def Let_def split: option.split fnode.split prod.split)

lemma write_file_success:
  assumes "\<not> is_error_result (fst (write_file ws w path c))"
  shows "is_absolute path \<and> check_within_workspace ws (resolve_path (fs w) path) = None
     \<and> nodes (fs (snd (write_file ws w path c))) (resolve_path (fs w) path) = Some (RegularFile c Utf8)
     \<and> resolve (fs (snd (write_file ws w path c))) = resolve (fs w)
     \<and> expand_home (fs (snd (write_file ws w path c))) = expand_home (fs w)"
proof -
  from assms have abs: "check_absolute_path path = None"
    by (cases "check_absolute_path path") (simp_all add: write_file_def)
  from assms abs have within: "check_within_workspace ws (resolve_path (fs w) path) = None"
    by (cases "check_within_workspace ws (resolve_path (fs w) path)") (simp_all add: write_file_def)
  from assms abs within have tok: "check_token_limit c MAX_TOKENS = None"
    by (cases "check_token_limit c MAX_TOKENS") (simp_all add: write_file_def)
  from assms abs within tok obtain f1 where
    mk: "mkdir_parents (fs w) (ancestors (resolve_path (fs w) path)) = Inr f1"
    by (cases "mkdir_parents (fs w) (ancestors (resolve_path (fs w) path))")
       (simp_all add: write_file_def)
  from assms abs within tok mk have enc: "encodable Utf8 c"
    by (cases "encodable Utf8 c") (simp_all add: write_file_def Let_def split: sum.splits)
  from assms abs within tok mk enc obtain f2 where
    wr: "write_text f1 (resolve_path (fs w) path) c Utf8 = Inr f2"
    by (cases "write_text f1 (resolve_path (fs w) path) c Utf8")
       (simp_all add: write_file_def Let_def)
  have res: "snd (write_file ws w path c) = w\<lparr>fs := f2\<rparr>"
    using abs within tok mk enc wr by (simp add: write_file_def Let_def)
  from abs have "is_absolute path"
    by (simp add: check_absolute_path_def split: if_splits)
  with within mkdir_parents_fields [OF mk] write_text_fields [OF wr] res
  show ?thesis by simp
qed

lemma resolve_path_cong:
  "resolve f' = resolve f \<Longrightarrow> expand_home f' = expand_home f \<Longrightarrow> resolve_path f' p = resolve_path f p"
  by (simp add: resolve_path_def expanduser_def split: list.splits)

lemma edit_text_identical:
  "expandtabs old_string = expandtabs new_string \<Longrightarrow>
   edit_text f file_path rp c e old_string new_string ra = (identical_error, f)"
  by (simp add: edit_text_def identical_error_def)

lemma example_parts: "check_within_workspace (u ''/ws'') (u ''/ws/a.txt'') = None"
  by (simp add: check_within_workspace_def path_parts_def u_def)

lemma example_resolve_a: "resolve_path example_fs (u ''/ws/a.txt'') = u ''/ws/a.txt''"
  by (simp add: resolve_path_def expanduser_def example_fs_def u_def)

lemma example_node_a: "nodes example_fs (u ''/ws/a.txt'') = Some (RegularFile (u ''hello'') Utf8)"
  by (simp add: example_fs_def u_def)

lemma example_absolute_a: "is_absolute (u ''/ws/a.txt'')"
  by (simp add: is_absolute_def u_def)

text \<open>
  Claim C1, as the code has it. In a session with a Read Tracker, \<open>edit_file\<close> on a
  path whose resolved form is not in the tracker returns an error result and leaves
  the disk and the tracker as they were, whatever the other arguments are; it never
  reports success. The check of the tracker is the sixth step of the pipeline: when
  the earlier checks pass (absolute path, inside the workspace, an existing regular
  file), the error is the one that says that \<open>read_file\<close> must be used before
  editing; when one of them fails, the call has already returned that check's error.
\<close>

theorem edit_file_requires_read:
  assumes "read_tracker w = Some read_files"
    and "\<not> is_read (fs w) read_files (resolve_path (fs w) file_path)"
  shows "snd (edit_file ws w file_path old_string new_string replace_all) = w
    \<and> is_error_result (fst (edit_file ws w file_path old_string new_string replace_all))
    \<and> (is_absolute file_path \<and> check_within_workspace ws (resolve_path (fs w) file_path) = None
         \<and> nodes (fs w) (resolve_path (fs w) file_path) = Some (RegularFile t e)
         \<longrightarrow> fst (edit_file ws w file_path old_string new_string replace_all)
               = must_read_error file_path)"
  using assms
  by (auto simp: edit_file_def Let_def check_absolute_path_def must_read_error_def
      split: option.splits fnode.splits)

theorem edit_file_requires_read_witness:
  "edit_file (u ''/ws'') example_world (u ''/ws/a.txt'') (u ''hello'') (u ''bye'') False
     = (must_read_error (u ''/ws/a.txt''), example_world)"
proof -
  have tracker: "read_tracker example_world = Some {}"
    by (simp add: example_world_def)
  have unread: "\<not> is_read (fs example_world) {} (resolve_path (fs example_world) (u ''/ws/a.txt''))"
    by (simp add: is_read_def)
  have preflight: "is_absolute (u ''/ws/a.txt'')
      \<and> check_within_workspace (u ''/ws'') (resolve_path (fs example_world) (u ''/ws/a.txt'')) = None
      \<and> nodes (fs example_world) (resolve_path (fs example_world) (u ''/ws/a.txt''))
          = Some (RegularFile (u ''hello'') Utf8)"
    by (simp add: example_world_def example_resolve_a example_node_a example_absolute_a example_parts)
  from edit_file_requires_read [where ws = "u ''/ws''" and t = "u ''hello''" and e = Utf8
      and old_string = "u ''hello''" and new_string = "u ''bye''" and replace_all = False,
      OF tracker unread] preflight
  show ?thesis
    by (simp add: prod_eq_iff)
qed

text \<open>
  The claim as stated names the must-read-first error for every call on an unread
  path. For the unread path \<open>/ws/none.txt\<close>, where no file exists, \<open>edit_file\<close>
  returns the error of the existence check instead.
\<close>

theorem edit_file_unread_missing_counterexample:
  "read_tracker example_world = Some {}
   \<and> \<not> is_read (fs example_world) {} (resolve_path (fs example_world) (u ''/ws/none.txt''))
   \<and> fst (edit_file (u ''/ws'') example_world (u ''/ws/none.txt'') (u ''hello'') (u ''bye'') False)
       = create_error_result (u ''File not found: /ws/none.txt'') (u ''File not found'')
   \<and> create_error_result (u ''File not found: /ws/none.txt'') (u ''File not found'')
       \<noteq> must_read_error (u ''/ws/none.txt'')"
proof -
  have absolute: "check_absolute_path (u ''/ws/none.txt'') = None"
    by (simp add: check_absolute_path_def is_absolute_def u_def)
  have resolved: "resolve_path (fs example_world) (u ''/ws/none.txt'') = u ''/ws/none.txt''"
    by (simp add: resolve_path_def expanduser_def example_world_def example_fs_def u_def)
  have within: "check_within_workspace (u ''/ws'') (u ''/ws/none.txt'') = None"
    by (simp add: check_within_workspace_def path_parts_def u_def)
  have missing: "nodes (fs example_world) (u ''/ws/none.txt'') = None"
    by (simp add: example_world_def example_fs_def u_def)
  have "fst (edit_file (u ''/ws'') example_world (u ''/ws/none.txt'') (u ''hello'') (u ''bye'') False)
       = create_error_result (u ''File not found: '' @ u ''/ws/none.txt'') (u ''File not found'')"
    by (simp add: edit_file_def absolute resolved within missing)
  moreover have "u ''File not found: '' @ u ''/ws/none.txt'' = u ''File not found: /ws/none.txt''"
    by (simp add: u_def)
  moreover have "create_error_result (u ''File not found: /ws/none.txt'') (u ''File not found'')
       \<noteq> must_read_error (u ''/ws/none.txt'')"
    by (simp add: must_read_error_def create_error_result_def u_def)
  moreover have "read_tracker example_world = Some {}"
    by (simp add: example_world_def)
  moreover have "\<not> is_read (fs example_world) {}
                    (resolve_path (fs example_world) (u ''/ws/none.txt''))"
    by (simp add: is_read_def)
  ultimately show ?thesis
    by simp
qed

text \<open>
  Claim C7, as the code has it. A call of \<open>edit_file\<close> whose \<open>old_string\<close> and
  \<open>new_string\<close> are equal after tab expansion (in particular \<open>edit_file(p, s, s)\<close>)
  returns an error result and writes nothing: the disk and the tracker are unchanged.
  The comparison is the ninth step of the pipeline: when the call reaches it
  (absolute path, inside the workspace, an existing regular file that has been read
  and can be read), the error is the one that says the strings are identical and no
  replacement is needed; when an earlier step fails, the call has already returned
  that step's error.
\<close>

theorem edit_file_identical_rejected:
  assumes "expandtabs old_string = expandtabs new_string"
  shows "snd (edit_file ws w file_path old_string new_string replace_all) = w
    \<and> is_error_result (fst (edit_file ws w file_path old_string new_string replace_all))
    \<and> (is_absolute file_path \<and> check_within_workspace ws (resolve_path (fs w) file_path) = None
         \<and> nodes (fs w) (resolve_path (fs w) file_path) = Some (RegularFile t e)
         \<and> (case read_tracker w of None \<Rightarrow> True
             | Some read_files \<Rightarrow> is_read (fs w) read_files (resolve_path (fs w) file_path))
         \<and> resolve_path (fs w) file_path \<notin> read_denied (fs w)
         \<longrightarrow> fst (edit_file ws w file_path old_string new_string replace_all) = identical_error)"
  using assms
  by (auto simp: edit_file_def Let_def check_absolute_path_def edit_text_identical identical_error_def
      split: option.splits fnode.splits)

theorem edit_file_identical_rejected_witness:
  "edit_file (u ''/ws'') example_world_read (u ''/ws/a.txt'') (u ''hello'') (u ''hello'') False
     = (identical_error, example_world_read)"
proof -
  have same: "expandtabs (u ''hello'') = expandtabs (u ''hello'')"
    by simp
  have preflight: "is_absolute (u ''/ws/a.txt'')
      \<and> check_within_workspace (u ''/ws'') (resolve_path (fs example_world_read) (u ''/ws/a.txt'')) = None
      \<and> nodes (fs example_world_read) (resolve_path (fs example_world_read) (u ''/ws/a.txt''))
          = Some (RegularFile (u ''hello'') Utf8)
      \<and> (case read_tracker example_world_read of None \<Rightarrow> True
          | Some read_files \<Rightarrow> is_read (fs example_world_read) read_files
                                 (resolve_path (fs example_world_read) (u ''/ws/a.txt'')))
      \<and> resolve_path (fs example_world_read) (u ''/ws/a.txt'') \<notin> read_denied (fs example_world_read)"
    by (simp add: example_world_read_def example_resolve_a example_node_a example_absolute_a
        example_parts is_read_def)
       (simp add: example_fs_def)
  from edit_file_identical_rejected [where ws = "u ''/ws''" and w = example_world_read
      and file_path = "u ''/ws/a.txt''" and t = "u ''hello''" and e = Utf8
      and replace_all = False, OF same] preflight
  show ?thesis
    by (simp add: prod_eq_iff)
qed

text \<open>
  The claim as stated names the identical-strings error for every path. On the file
  \<open>/ws/a.txt\<close>, which has not been read, \<open>edit_file\<close> with equal strings returns
  the must-read-first error instead.
\<close>

theorem edit_file_identical_unread_counterexample:
  "expandtabs (u ''hello'') = expandtabs (u ''hello'')
   \<and> fst (edit_file (u ''/ws'') example_world (u ''/ws/a.txt'') (u ''hello'') (u ''hello'') False)
       = must_read_error (u ''/ws/a.txt'')
   \<and> must_read_error (u ''/ws/a.txt'') \<noteq> identical_error"
proof -
  have "fst (edit_file (u ''/ws'') example_world (u ''/ws/a.txt'') (u ''hello'') (u ''hello'') False)
       = must_read_error (u ''/ws/a.txt'')"
    by (simp add: edit_file_def check_absolute_path_def example_absolute_a example_world_def
        example_resolve_a example_parts example_node_a is_read_def must_read_error_def)
  moreover have "must_read_error (u ''/ws/a.txt'') \<noteq> identical_error"
    by (simp add: must_read_error_def identical_error_def create_error_result_def u_def)
  ultimately show ?thesis
    by simp
qed

text \<open>
  Claim C8. \<open>write_file\<close> never changes the Read Tracker. When a path has not been
  read and \<open>write_file\<close> on it succeeds, the tracker after the write is the tracker
  before it, and an \<open>edit_file\<close> on the same path that follows is rejected with the
  error that \<open>read_file\<close> must be used first, changing nothing. \<open>edit_file\<close> does not
  change the tracker either, and \<open>read_file\<close> changes it only when it succeeds, by
  marking the path it read.
\<close>

theorem write_file_keeps_tracker:
  assumes "read_tracker w = Some read_files"
    and "\<not> is_read (fs w) read_files (resolve_path (fs w) path)"
    and "\<not> is_error_result (fst (write_file ws w path c))"
  shows "read_tracker (snd (write_file ws w path c)) = Some read_files
     \<and> edit_file ws (snd (write_file ws w path c)) path old_string new_string replace_all
         = (must_read_error path, snd (write_file ws w path c))
     \<and> read_tracker (snd (write_file ws_w w_w path_w c_w)) = read_tracker w_w
     \<and> read_tracker (snd (edit_file ws_e w_e path_e old_e new_e ra_e)) = read_tracker w_e
     \<and> read_tracker (snd (read_file ws_r w_r path_r sl el)) =
         (if is_error_result (fst (read_file ws_r w_r path_r sl el)) then read_tracker w_r
          else map_option (\<lambda>rf. mark_as_read (fs w_r) rf (resolve (fs w_r) path_r)) (read_tracker w_r))"
proof -
  let ?w' = "snd (write_file ws w path c)"
  from write_file_success [OF assms(3)]
  have abs: "is_absolute path"
    and within: "check_within_workspace ws (resolve_path (fs w) path) = None"
    and node: "nodes (fs ?w') (resolve_path (fs w) path) = Some (RegularFile c Utf8)"
    and res: "resolve (fs ?w') = resolve (fs w)"
    and home: "expand_home (fs ?w') = expand_home (fs w)"
    by simp_all
  have rp: "resolve_path (fs ?w') path = resolve_path (fs w) path"
    using res home by (rule resolve_path_cong)
  have tr: "read_tracker ?w' = Some read_files"
    using assms(1) by (simp add: write_file_tracker)
  have unread: "\<not> is_read (fs ?w') read_files (resolve_path (fs ?w') path)"
    using assms(2) by (simp add: rp is_read_def res)
  have "edit_file ws ?w' path old_string new_string replace_all = (must_read_error path, ?w')"
    using abs within node tr unread
    by (simp add: edit_file_def check_absolute_path_def rp must_read_error_def)
  with tr show ?thesis
    by (simp add: write_file_tracker edit_file_tracker read_file_tracker)
qed

theorem write_file_keeps_tracker_witness:
  "\<not> is_error_result (fst (write_file (u ''/ws'') example_world (u ''/ws/new.txt'') (u ''hi'')))
   \<and> read_tracker (snd (write_file (u ''/ws'') example_world (u ''/ws/new.txt'') (u ''hi''))) = Some {}
   \<and> edit_file (u ''/ws'') (snd (write_file (u ''/ws'') example_world (u ''/ws/new.txt'') (u ''hi'')))
        (u ''/ws/new.txt'') (u ''hi'') (u ''ho'') False
      = (must_read_error (u ''/ws/new.txt''),
         snd (write_file (u ''/ws'') example_world (u ''/ws/new.txt'') (u ''hi'')))"
proof -
  have tracker: "read_tracker example_world = Some {}"
    by (simp add: example_world_def)
  have unread: "\<not> is_read (fs example_world) {} (resolve_path (fs example_world) (u ''/ws/new.txt''))"
    by (simp add: is_read_def)
  have "fst (write_file (u ''/ws'') example_world (u ''/ws/new.txt'') (u ''hi''))
          = write_success (u ''/ws/new.txt'') (u ''hi'') False"
    by (simp add: write_file_def check_absolute_path_def is_absolute_def resolve_path_def
        expanduser_def example_world_def example_fs_def check_within_workspace_def path_parts_def
        check_token_limit_def estimate_tokens_def MAX_TOKENS_def ancestors_def encodable_def
        write_text_def Let_def u_def)
  then have written:
    "\<not> is_error_result (fst (write_file (u ''/ws'') example_world (u ''/ws/new.txt'') (u ''hi'')))"
    by simp
  from write_file_keeps_tracker [where old_string = "u ''hi''" and new_string = "u ''ho''"
      and replace_all = False and ws_w = "[]" and w_w = example_world and path_w = "[]" and c_w = "[]"
      and ws_e = "[]" and w_e = example_world and path_e = "[]" and old_e = "[]" and new_e = "[]"
      and ra_e = False and ws_r = "[]" and w_r = example_world and path_r = "[]" and sl = None
      and el = None, OF tracker unread written]
  have "read_tracker (snd (write_file (u ''/ws'') example_world (u ''/ws/new.txt'') (u ''hi''))) = Some {}
     \<and> edit_file (u ''/ws'') (snd (write_file (u ''/ws'') example_world (u ''/ws/new.txt'') (u ''hi'')))
          (u ''/ws/new.txt'') (u ''hi'') (u ''ho'') False
        = (must_read_error (u ''/ws/new.txt''),
           snd (write_file (u ''/ws'') example_world (u ''/ws/new.txt'') (u ''hi'')))"
    by blast
  with written show ?thesis
    by blast
qed

text \<open>
  Claim C9. For an existing regular file inside the workspace whose text is empty,
  given by an absolute path and readable, \<open>read_file\<close> without \<open>start_line\<close> and
  \<open>end_line\<close> returns the error \<open>Invalid start_line None (file has 0 lines)\<close> and
  leaves the state, and with it the Read Tracker, unchanged.
\<close>

theorem read_file_empty_file:
  assumes "is_absolute path"
    and "check_within_workspace ws (resolve (fs w) path) = None"
    and "nodes (fs w) (resolve (fs w) path) = Some (RegularFile [] e)"
    and "resolve (fs w) path \<notin> read_denied (fs w)"
  shows "read_file ws w path None None =
     (create_error_result (u ''Invalid start_line None (file has 0 lines)'')
        (u ''Invalid start_line None (file has 0 lines)''), w)"
  using assms
  by (simp add: read_file_def check_absolute_path_def check_file_size_def st_size_def utf8_size_def
      read_lines_def splitlines_def str_opt_int_def str_int_def str_nat.simps u_def
      MAX_FILE_SIZE_BYTES_def Let_def split: encoding.splits)

theorem read_file_empty_file_witness:
  "read_file (u ''/ws'') example_world (u ''/ws/empty.txt'') None None =
     (create_error_result (u ''Invalid start_line None (file has 0 lines)'')
        (u ''Invalid start_line None (file has 0 lines)''), example_world)
   \<and> read_tracker example_world = Some {}"
proof -
  have a: "is_absolute (u ''/ws/empty.txt'')"
    by (simp add: is_absolute_def u_def)
  have b: "check_within_workspace (u ''/ws'') (resolve (fs example_world) (u ''/ws/empty.txt'')) = None"
    by (simp add: example_world_def example_fs_def check_within_workspace_def path_parts_def u_def)
  have c: "nodes (fs example_world) (resolve (fs example_world) (u ''/ws/empty.txt''))
             = Some (RegularFile [] Utf8)"
    by (simp add: example_world_def example_fs_def u_def)
  have d: "resolve (fs example_world) (u ''/ws/empty.txt'') \<notin> read_denied (fs example_world)"
    by (simp add: example_world_def example_fs_def)
  from read_file_empty_file [OF a b c d] show ?thesis
    by (simp add: example_world_def)
qed

section \<open>Properties of the Context Engine\<close>

lemma find_target_idx_Some:
  "find_target_idx msgs tcid n = Some i \<longleftrightarrow>
     i < n \<and> has_tool_call (msgs ! i) tcid \<and> (\<forall>j. i < j \<and> j < n \<longrightarrow> \<not> has_tool_call (msgs ! j) tcid)"
proof (induction n)
  case 0
  show ?case by simp
next
  case (Suc n)
  show ?case
  proof (cases "has_tool_call (msgs ! n) tcid")
    case True
    have "i = n \<longleftrightarrow>
        i < Suc n \<and> has_tool_call (msgs ! i) tcid
        \<and> (\<forall>j. i < j \<and> j < Suc n \<longrightarrow> \<not> has_tool_call (msgs ! j) tcid)"
      using True by (metis less_Suc_eq less_irrefl not_less_eq)
    with True show ?thesis by auto
  next
    case False
    then have "(i < n \<and> has_tool_call (msgs ! i) tcid
           \<and> (\<forall>j. i < j \<and> j < n \<longrightarrow> \<not> has_tool_call (msgs ! j) tcid))
      \<longleftrightarrow> (i < Suc n \<and> has_tool_call (msgs ! i) tcid
           \<and> (\<forall>j. i < j \<and> j < Suc n \<longrightarrow> \<not> has_tool_call (msgs ! j) tcid))"
      by (metis less_Suc_eq)
    with False Suc show ?thesis by simp
  qed
qed

lemma add_user_message_fields:
  "prompt_counter (add_user_message c ce) = prompt_counter ce + 1
   \<and> current_prompt_id (add_user_message c ce) = Some (prompt_id_of (prompt_counter ce + 1))
   \<and> current_iteration (add_user_message c ce) = 0
   \<and> messages (add_user_message c ce) =
       messages ce @ [\<lparr>role = USER, mcontent = c, name = None, tool_calls = None,
                        tool_call_id = None\<rparr>]"
  by (simp add: add_user_message_def trajectory_write_def Let_def)

lemma sanitize_found:
  assumes "find_target_idx (messages ce) tcid (length (messages ce)) = Some i"
    and "mcontent (messages ce ! i) = Text c"
  shows "sanitize_invalid_tool_call js tcid tool_name err ce =
     Inr (add_user_message (Text (retry_instruction tool_name tcid err))
            (trajectory_write
               (ToolCallSanitizedEvent (current_prompt_id ce) (messages ce ! i)
                  (Text (c @ tool_calls_text js tcid
                               (case tool_calls (messages ce ! i) of None \<Rightarrow> [] | Some tcs \<Rightarrow> tcs))))
               (ce\<lparr>messages := (messages ce)
                    [i := \<lparr>role = ASSISTANT,
                           mcontent = Text (c @ tool_calls_text js tcid
                               (case tool_calls (messages ce ! i) of None \<Rightarrow> [] | Some tcs \<Rightarrow> tcs)),
                           name = None, tool_calls = None, tool_call_id = None\<rparr>]\<rparr>)))"
  using assms
  by (simp add: sanitize_invalid_tool_call_def content_or_empty_def Let_def)

lemma messages_trajectory_write [simp]: "messages (trajectory_write ev ce) = messages ce"
  by (simp add: trajectory_write_def)

lemma counters_trajectory_write [simp]:
  "prompt_counter (trajectory_write ev ce) = prompt_counter ce"
  "current_prompt_id (trajectory_write ev ce) = current_prompt_id ce"
  "current_iteration (trajectory_write ev ce) = current_iteration ce"
  by (simp_all add: trajectory_write_def)

lemma digits_val_snoc: "digits_val (s @ [c]) = 10 * digits_val s + (c - 48)"
  by (simp add: digits_val_def)

lemma digits_val_str_nat: "digits_val (str_nat n) = n"
proof (induction n rule: str_nat.induct)
  case (1 n)
  show ?case
  proof (cases "n < 10")
    case True
    then show ?thesis by (simp add: str_nat.simps [of n] digits_val_def)
  next
    case False
    with 1 show ?thesis by (simp add: str_nat.simps [of n] digits_val_snoc)
  qed
qed

lemma digits_val_zeros: "digits_val (replicate k 48 @ s) = digits_val s"
proof -
  have "foldl (\<lambda>a c. 10 * a + (c - 48)) 0 (replicate k (48::nat)) = 0"
    by (induction k) simp_all
  then show ?thesis by (simp add: digits_val_def)
qed

lemma prompt_id_of_inj: "prompt_id_of m = prompt_id_of n \<Longrightarrow> m = n"
proof -
  assume "prompt_id_of m = prompt_id_of n"
  then have "replicate (3 - length (str_nat m)) 48 @ str_nat m
           = replicate (3 - length (str_nat n)) 48 @ str_nat n"
    by (simp add: prompt_id_of_def)
  then have "digits_val (replicate (3 - length (str_nat m)) 48 @ str_nat m)
           = digits_val (replicate (3 - length (str_nat n)) 48 @ str_nat n)"
    by simp
  then show "m = n" by (simp only: digits_val_zeros digits_val_str_nat)
qed

lemma example_target: "find_target_idx (messages example_engine) (u ''tc_1'') 3 = Some 2"
  by (simp add: numeral_3_eq_3 example_engine_def example_assistant_def has_tool_call_def
      call_broken_def call_ok_def call_unknown_def u_def)

lemma retry_instruction_asks_retry:
  "\<exists>pre post. retry_instruction tool_name tcid err
      = pre @ u ''Please retry the tool call with VALID JSON format'' @ post"
proof -
  have "u ''Please retry the tool call with VALID JSON format. Ensure that:''
      = u ''Please retry the tool call with VALID JSON format'' @ u ''. Ensure that:''"
    by (simp add: u_def)
  then show ?thesis
    unfolding retry_instruction_def
    by (metis append.assoc)
qed

text \<open>
  Claim C4. When \<open>sanitize_invalid_tool_call\<close> is given the id of a tool call of
  some assistant message, and the most recent such message (index \<open>i\<close>) has text
  content \<open>c\<close> and tool calls \<open>tcs\<close>, the call returns, and the ledger after it is the
  ledger before it with message \<open>i\<close> replaced and one message appended. The
  replacement is an assistant message without tool calls whose text is \<open>c\<close>, then
  two line feeds, \<open>Tool calls attempted:\<close> and a line feed, then one entry for every
  call of \<open>tcs\<close>, in order, joined by line feeds. An entry gives the tool name, the
  id, and as arguments \<open><Invalid JSON format>\<close> for a call with the offending id
  or with arguments that do not parse, and the pretty-printed arguments otherwise.
  The appended message is a user message that asks to retry with valid JSON.
\<close>

theorem sanitize_rewrites_assistant_message:
  assumes "i < length (messages ce)"
    and "has_tool_call (messages ce ! i) tcid"
    and "\<forall>j. i < j \<and> j < length (messages ce) \<longrightarrow> \<not> has_tool_call (messages ce ! j) tcid"
    and "mcontent (messages ce ! i) = Text c"
    and "tool_calls (messages ce ! i) = Some tcs"
  shows "(\<exists>ce'.
     sanitize_invalid_tool_call js tcid tool_name err ce = Inr ce'
     \<and> messages ce' =
         (messages ce)
           [i := \<lparr>role = ASSISTANT,
                  mcontent = Text (c @ [10, 10] @ u ''Tool calls attempted:'' @ [10]
                    @ str_join [10]
                        (map (\<lambda>tc. u ''- Tool: ''
                                @ (case tc_function tc (u ''name'') of
                                     None \<Rightarrow> u ''unknown'' | Some n \<Rightarrow> n)
                                @ [10] @ u ''  ID: '' @ tc_id tc @ [10] @ u ''  Arguments: ''
                                @ (if tc_id tc = tcid then u ''<Invalid JSON format>''
                                   else case loads js (case tc_function tc (u ''arguments'') of
                                                         None \<Rightarrow> u ''{}'' | Some a \<Rightarrow> a) of
                                          Inl e \<Rightarrow> u ''<Invalid JSON format>''
                                        | Inr a \<Rightarrow> dumps_indent2 js a))
                           tcs)),
                  name = None, tool_calls = None, tool_call_id = None\<rparr>]
         @ [\<lparr>role = USER, mcontent = Text (retry_instruction tool_name tcid err), name = None,
             tool_calls = None, tool_call_id = None\<rparr>])
     \<and> (\<exists>pre post. retry_instruction tool_name tcid err
          = pre @ u ''Please retry the tool call with VALID JSON format'' @ post)"
proof -
  from assms(1-3) have found: "find_target_idx (messages ce) tcid (length (messages ce)) = Some i"
    by (simp add: find_target_idx_Some)
  have entry: "tool_call_text js tcid =
      (\<lambda>tc. u ''- Tool: ''
            @ (case tc_function tc (u ''name'') of None \<Rightarrow> u ''unknown'' | Some n \<Rightarrow> n)
            @ [10] @ u ''  ID: '' @ tc_id tc @ [10] @ u ''  Arguments: ''
            @ (if tc_id tc = tcid then u ''<Invalid JSON format>''
               else case loads js (case tc_function tc (u ''arguments'') of
                                     None \<Rightarrow> u ''{}'' | Some a \<Rightarrow> a) of
                      Inl e \<Rightarrow> u ''<Invalid JSON format>''
                    | Inr a \<Rightarrow> dumps_indent2 js a))"
    by (rule ext) (simp add: tool_call_text_def format_tool_args_def u_def)
  have transcription: "tool_calls_text js tcid tcs =
      [10, 10] @ u ''Tool calls attempted:'' @ [10] @ str_join [10] (map (tool_call_text js tcid) tcs)"
    by (simp add: tool_calls_text_def u_def)
  show ?thesis
    using sanitize_found [OF found assms(4), of js tool_name err] assms(5)
    by (simp add: add_user_message_fields transcription entry retry_instruction_asks_retry)
qed

theorem sanitize_rewrites_assistant_message_witness:
  "\<exists>ce'. sanitize_invalid_tool_call example_json (u ''tc_1'') (u ''read_file'')
            (u ''Expecting property name'') example_engine = Inr ce'
     \<and> length (messages ce') = 4
     \<and> messages ce' ! 2 =
         \<lparr>role = ASSISTANT,
          mcontent = Text (u ''Let me look.'' @ [10, 10] @ u ''Tool calls attempted:'' @ [10]
            @ u ''- Tool: read_file'' @ [10] @ u ''  ID: tc_1'' @ [10]
            @ u ''  Arguments: <Invalid JSON format>'' @ [10]
            @ u ''- Tool: read_file'' @ [10] @ u ''  ID: tc_2'' @ [10] @ u ''  Arguments: {}''
            @ [10] @ u ''- Tool: no_such_tool'' @ [10] @ u ''  ID: tc_3'' @ [10]
            @ u ''  Arguments: <Invalid JSON format>''),
          name = None, tool_calls = None, tool_call_id = None\<rparr>
     \<and> role (messages ce' ! 3) = USER"
proof -
  have len: "2 < length (messages example_engine)"
    by (simp add: example_engine_def)
  have target: "has_tool_call (messages example_engine ! 2) (u ''tc_1'')"
    by (simp add: example_engine_def example_assistant_def has_tool_call_def call_broken_def)
  have latest: "\<forall>j. 2 < j \<and> j < length (messages example_engine)
                  \<longrightarrow> \<not> has_tool_call (messages example_engine ! j) (u ''tc_1'')"
    by (auto simp: example_engine_def)
  have ctext: "mcontent (messages example_engine ! 2) = Text (u ''Let me look.'')"
    by (simp add: example_engine_def example_assistant_def)
  have tcs: "tool_calls (messages example_engine ! 2) = Some [call_broken, call_ok, call_unknown]"
    by (simp add: example_engine_def example_assistant_def)
  from sanitize_rewrites_assistant_message [OF len target latest ctext tcs,
      of example_json "u ''read_file''" "u ''Expecting property name''"]
  show ?thesis
    by (auto simp: example_engine_def example_json_def call_broken_def call_ok_def
        call_unknown_def nth_append u_def)
qed

text \<open>
  Claim C10. A call of \<open>sanitize_invalid_tool_call\<close> that finds its target assistant
  message (with text content, so that the call returns) ends with \<open>add_user_message\<close>
  for the retry instruction: the prompt counter is one higher, the current prompt id
  is the id of the new counter value, which differs from the id of every counter
  value up to the old one, the iteration counter is 0, and the last message of the
  ledger is the user message with the retry instruction.
\<close>

theorem sanitize_starts_new_prompt:
  assumes "find_target_idx (messages ce) tcid (length (messages ce)) = Some i"
    and "mcontent (messages ce ! i) = Text c"
  shows "\<exists>ce'. sanitize_invalid_tool_call js tcid tool_name err ce = Inr ce'
     \<and> prompt_counter ce' = prompt_counter ce + 1
     \<and> current_prompt_id ce' = Some (prompt_id_of (prompt_counter ce + 1))
     \<and> (\<forall>n \<le> prompt_counter ce. prompt_id_of n \<noteq> prompt_id_of (prompt_counter ce + 1))
     \<and> current_iteration ce' = 0
     \<and> last (messages ce') =
         \<lparr>role = USER, mcontent = Text (retry_instruction tool_name tcid err), name = None,
          tool_calls = None, tool_call_id = None\<rparr>"
proof -
  have fresh: "\<forall>n \<le> prompt_counter ce. prompt_id_of n \<noteq> prompt_id_of (prompt_counter ce + 1)"
    using prompt_id_of_inj by fastforce
  show ?thesis
    using sanitize_found [OF assms, of js tool_name err] fresh
    by (simp add: add_user_message_fields)
qed

theorem sanitize_starts_new_prompt_witness:
  "\<exists>ce'. sanitize_invalid_tool_call example_json (u ''tc_1'') (u ''read_file'')
            (u ''Expecting property name'') example_engine = Inr ce'
     \<and> prompt_counter example_engine = 1
     \<and> current_iteration example_engine = 1
     \<and> prompt_counter ce' = 2
     \<and> current_prompt_id ce' = Some (u ''prompt_002'')
     \<and> prompt_id_of 1 \<noteq> prompt_id_of 2
     \<and> current_iteration ce' = 0"
proof -
  have "length (messages example_engine) = 3"
    by (simp add: example_engine_def)
  with example_target
  have found: "find_target_idx (messages example_engine) (u ''tc_1'')
                 (length (messages example_engine)) = Some 2"
    by simp
  have ctext: "mcontent (messages example_engine ! 2) = Text (u ''Let me look.'')"
    by (simp add: example_engine_def example_assistant_def)
  have two: "prompt_id_of 2 = u ''prompt_002''"
    by (simp add: prompt_id_of_def str_nat.simps u_def numeral_2_eq_2)
  have c: "prompt_counter example_engine = 1" and ci: "current_iteration example_engine = 1"
    by (simp_all add: example_engine_def)
  have next_counter: "prompt_counter example_engine + 1 = 2"
    using c by simp
  from sanitize_starts_new_prompt [OF found ctext, of example_json "u ''read_file''"
      "u ''Expecting property name''"]
  obtain ce' where
    s: "sanitize_invalid_tool_call example_json (u ''tc_1'') (u ''read_file'')
       (u ''Expecting property name'') example_engine = Inr ce'"
    and pc: "prompt_counter ce' = prompt_counter example_engine + 1"
    and pid: "current_prompt_id ce' = Some (prompt_id_of (prompt_counter example_engine + 1))"
    and fresh: "\<forall>n \<le> prompt_counter example_engine.
            prompt_id_of n \<noteq> prompt_id_of (prompt_counter example_engine + 1)"
    and it: "current_iteration ce' = 0"
    by blast
  have pc': "prompt_counter ce' = 2"
    using pc by (simp only: next_counter)
  have pid': "current_prompt_id ce' = Some (u ''prompt_002'')"
    using pid by (simp only: next_counter two)
  have ne: "prompt_id_of 1 \<noteq> prompt_id_of 2"
    using fresh [unfolded next_counter c, rule_format, of 1] by (simp add: numeral_2_eq_2)
  from s c ci pc' pid' ne it show ?thesis
    by blast
qed

section \<open>Properties of the Tool Executor\<close>

lemma filter_list_update_same:
  "i < length xs \<Longrightarrow> \<not> P (xs ! i) \<Longrightarrow> \<not> P y \<Longrightarrow> filter P (xs[i := y]) = filter P xs"
proof (induction xs arbitrary: i)
  case Nil
  then show ?case by simp
next
  case (Cons x xs)
  then show ?case by (cases i) simp_all
qed

lemma sanitize_returns:
  assumes "\<forall>m \<in> set (messages ce). role m = ASSISTANT \<longrightarrow> (\<exists>c. mcontent m = Text c)"
  shows "\<exists>ce'. sanitize_invalid_tool_call js tcid tool_name err ce = Inr ce'
     \<and> filter (\<lambda>m. role m = TOOL) (messages ce') = filter (\<lambda>m. role m = TOOL) (messages ce)"
proof (cases "find_target_idx (messages ce) tcid (length (messages ce))")
  case None
  then show ?thesis by (simp add: sanitize_invalid_tool_call_def)
next
  case (Some i)
  then have i: "i < length (messages ce)" and target: "has_tool_call (messages ce ! i) tcid"
    by (simp_all add: find_target_idx_Some)
  from target have assistant: "role (messages ce ! i) = ASSISTANT"
    by (simp add: has_tool_call_def)
  with assms i obtain c where c: "mcontent (messages ce ! i) = Text c"
    by (meson nth_mem)
  show ?thesis
    using sanitize_found [OF Some c, of js tool_name err] i assistant
    by (simp add: add_user_message_fields filter_list_update_same)
qed

text \<open>
  Claim C3, as the code has it. For a tool call that names a registered tool and
  whose arguments are not valid JSON, in a ledger whose assistant messages carry
  text, \<open>execute_tool_call\<close> applies the sanitizer of the Context Engine to the
  ledger, emits exactly one event, a \<open>tool_done\<close> with \<open>confirmed\<close> false, and
  appends no tool message: the tool messages of the ledger after the call are those
  before it. The lookup of the tool comes before the parsing of the arguments; a
  call that names no registered tool takes the not-found branch whatever its
  arguments are.
\<close>

theorem invalid_arguments_sanitized:
  assumes "tc_function tc (u ''name'') = Some tool_name"
    and "tool_registry ex tool_name = Some tool"
    and "tc_function tc (u ''arguments'') = Some args_text"
    and "loads (json_module ex) args_text = Inl err"
    and "\<forall>m \<in> set (messages (engine st)). role m = ASSISTANT \<longrightarrow> (\<exists>c. mcontent m = Text c)"
  shows "\<exists>ce'. sanitize_invalid_tool_call (json_module ex) (tc_id tc) tool_name err (engine st) = Inr ce'
     \<and> execute_tool_call ex tc sid st =
         Inr ([ToolDone (tc_id tc) tool_name (u ''Error: Invalid tool arguments JSON: '' @ err)
                 None False None sid], st\<lparr>engine := ce'\<rparr>)
     \<and> filter (\<lambda>m. role m = TOOL) (messages ce')
         = filter (\<lambda>m. role m = TOOL) (messages (engine st))"
proof -
  from sanitize_returns [OF assms(5), of "json_module ex" "tc_id tc" tool_name err]
  obtain ce' where
    s: "sanitize_invalid_tool_call (json_module ex) (tc_id tc) tool_name err (engine st) = Inr ce'"
    and f: "filter (\<lambda>m. role m = TOOL) (messages ce')
              = filter (\<lambda>m. role m = TOOL) (messages (engine st))"
    by blast
  have "execute_tool_call ex tc sid st =
         Inr ([ToolDone (tc_id tc) tool_name (u ''Error: Invalid tool arguments JSON: '' @ err)
                 None False None sid], st\<lparr>engine := ce'\<rparr>)"
    using assms(1-4) s
    by (simp add: execute_tool_call_def handle_invalid_arguments_def Let_def u_def)
  with s f show ?thesis by blast
qed

theorem invalid_arguments_sanitized_witness:
  "\<exists>ce'. sanitize_invalid_tool_call example_json (u ''tc_1'') (u ''read_file'')
            (u ''Expecting property name'') example_engine = Inr ce'
     \<and> execute_tool_call example_executor call_broken (u ''s1'') example_session =
         Inr ([ToolDone (u ''tc_1'') (u ''read_file'')
                 (u ''Error: Invalid tool arguments JSON: Expecting property name'')
                 None False None (u ''s1'')], example_session\<lparr>engine := ce'\<rparr>)
     \<and> filter (\<lambda>m. role m = TOOL) (messages ce') = []"
proof -
  have n: "tc_function call_broken (u ''name'') = Some (u ''read_file'')"
    by (simp add: call_broken_def u_def)
  have t: "tool_registry example_executor (u ''read_file'') = Some (read_file_tool (u ''/ws''))"
    by (simp add: example_executor_def u_def)
  have a: "tc_function call_broken (u ''arguments'') = Some (u ''{broken'')"
    by (simp add: call_broken_def u_def)
  have l: "loads (json_module example_executor) (u ''{broken'') = Inl (u ''Expecting property name'')"
    by (simp add: example_executor_def example_json_def)
  have m: "\<forall>m \<in> set (messages (engine example_session)).
             role m = ASSISTANT \<longrightarrow> (\<exists>c. mcontent m = Text c)"
    by (simp add: example_session_def example_engine_def example_assistant_def)
  have none: "filter (\<lambda>m. role m = TOOL) (messages example_engine) = []"
    by (simp add: example_engine_def example_assistant_def)
  have e: "engine example_session = example_engine" "tc_id call_broken = u ''tc_1''"
    "json_module example_executor = example_json"
    by (simp_all add: example_session_def call_broken_def example_executor_def)
  have msg: "u ''Error: Invalid tool arguments JSON: '' @ u ''Expecting property name''
             = u ''Error: Invalid tool arguments JSON: Expecting property name''"
    by (simp add: u_def)
  from invalid_arguments_sanitized [OF n t a l m, of "u ''s1''"]
  obtain ce' where
    "sanitize_invalid_tool_call (json_module example_executor) (tc_id call_broken) (u ''read_file'')
       (u ''Expecting property name'') (engine example_session) = Inr ce'"
    and "execute_tool_call example_executor call_broken (u ''s1'') example_session =
         Inr ([ToolDone (tc_id call_broken) (u ''read_file'')
                 (u ''Error: Invalid tool arguments JSON: '' @ u ''Expecting property name'')
                 None False None (u ''s1'')], example_session\<lparr>engine := ce'\<rparr>)"
    and "filter (\<lambda>m. role m = TOOL) (messages ce')
         = filter (\<lambda>m. role m = TOOL) (messages (engine example_session))"
    by blast
  then have
    "sanitize_invalid_tool_call example_json (u ''tc_1'') (u ''read_file'')
       (u ''Expecting property name'') example_engine = Inr ce'"
    and "execute_tool_call example_executor call_broken (u ''s1'') example_session =
         Inr ([ToolDone (u ''tc_1'') (u ''read_file'')
                 (u ''Error: Invalid tool arguments JSON: Expecting property name'')
                 None False None (u ''s1'')], example_session\<lparr>engine := ce'\<rparr>)"
    and "filter (\<lambda>m. role m = TOOL) (messages ce') = []"
    by (simp_all only: e msg none)
  then show ?thesis
    by blast
qed

text \<open>
  The claim as stated fails for a tool that is not registered: the arguments of
  \<open>call_unknown\<close> are not valid JSON, and \<open>execute_tool_call\<close> appends a tool message
  with the id of the call to the ledger.
\<close>

theorem invalid_arguments_unknown_tool_counterexample:
  "tc_function call_unknown (u ''arguments'') = Some (u ''{broken'')
   \<and> loads (json_module example_executor) (u ''{broken'') = Inl (u ''Expecting property name'')
   \<and> execute_tool_call example_executor call_unknown (u ''s1'') example_session =
       Inr ([ToolDone (u ''tc_3'') (u ''no_such_tool'') (u ''Error: Tool not found: no_such_tool'')
               None False None (u ''s1'')],
            example_session
              \<lparr>engine := example_engine
                 \<lparr>messages := messages example_engine
                    @ [\<lparr>role = TOOL, mcontent = Text (u ''Error: Tool not found: no_such_tool''),
                        name = None, tool_calls = None, tool_call_id = Some (u ''tc_3'')\<rparr>],
                  trajectory := Some [ToolResultEvent (Some (prompt_id_of 1)) 1 (u ''tc_3'')
                                        (u ''Error: Tool not found: no_such_tool'') True None None]\<rparr>\<rparr>)"
  by (simp add: execute_tool_call_def handle_tool_not_found_def add_tool_result_def
      trajectory_write_def call_unknown_def example_executor_def example_json_def
      example_session_def example_engine_def Let_def u_def)

text \<open>
  Claim C2. The local branch of \<open>_execute_and_record\<close> does not look at the result:
  \<open>edit_file\<close> on a file that has not been read returns a result whose content begins
  \<open>Error:\<close> and whose display begins with the cross mark, and the executor records
  the call with \<open>success\<close> true, in the tool-result event of the trajectory.
\<close>

theorem local_error_recorded_as_success:
  "execute_and_record example_executor (edit_file_tool (u ''/ws'')) (u ''tc_9'') (u ''edit_file'')
      edit_args True (u ''s1'') example_session =
     ([ToolStart (u ''tc_9'') (u ''edit_file'') edit_args (u ''s1''),
       ToolDone (u ''tc_9'') (u ''edit_file'') (content (must_read_error (u ''/ws/a.txt'')))
         (Some (display (must_read_error (u ''/ws/a.txt'')))) True (Some edit_args) (u ''s1'')],
      \<lparr>engine = example_engine
         \<lparr>messages := messages example_engine
            @ [\<lparr>role = TOOL, mcontent = Text (content (must_read_error (u ''/ws/a.txt''))),
                name = None, tool_calls = None, tool_call_id = Some (u ''tc_9'')\<rparr>],
          trajectory := Some [ToolResultEvent (Some (prompt_id_of 1)) 1 (u ''tc_9'')
                                (content (must_read_error (u ''/ws/a.txt''))) True
                                (Some (u ''edit_file'')) (Some edit_args)]\<rparr>,
       tools_state = example_world\<rparr>)
   \<and> prefix (u ''Error:'') (content (must_read_error (u ''/ws/a.txt'')))
   \<and> prefix cross_mark (display (must_read_error (u ''/ws/a.txt'')))"
proof -
  have edit: "edit_file (u ''/ws'') example_world (u ''/ws/a.txt'') (u ''hello'') (u ''bye'') False
     = (must_read_error (u ''/ws/a.txt''), example_world)"
    by (simp add: edit_file_def check_absolute_path_def example_absolute_a example_world_def
        example_resolve_a example_parts example_node_a is_read_def must_read_error_def)
  have args: "arg_str edit_args (u ''file_path'') = Some (u ''/ws/a.txt'')"
    "arg_str edit_args (u ''old_string'') = Some (u ''hello'')"
    "arg_str edit_args (u ''new_string'') = Some (u ''bye'')"
    "arg_bool edit_args (u ''replace_all'') = False"
    by (simp_all add: arg_str_def arg_bool_def edit_args_def u_def)
  have local: "remote_executor example_executor = None"
    by (simp add: remote_executor_def example_executor_def)
  have run: "run_tool example_executor (edit_file_tool (u ''/ws'')) (u ''edit_file'') edit_args
               example_world = (must_read_error (u ''/ws/a.txt''), True, example_world)"
    by (simp add: run_tool_def local edit_file_tool_def args edit)
  have truthy: "json_truthy edit_args"
    by (simp add: edit_args_def)
  have name: "u ''edit_file'' \<noteq> []"
    by (simp add: u_def)
  have "execute_and_record example_executor (edit_file_tool (u ''/ws'')) (u ''tc_9'') (u ''edit_file'')
      edit_args True (u ''s1'') example_session =
     ([ToolStart (u ''tc_9'') (u ''edit_file'') edit_args (u ''s1''),
       ToolDone (u ''tc_9'') (u ''edit_file'') (content (must_read_error (u ''/ws/a.txt'')))
         (Some (display (must_read_error (u ''/ws/a.txt'')))) True (Some edit_args) (u ''s1'')],
      \<lparr>engine = example_engine
         \<lparr>messages := messages example_engine
            @ [\<lparr>role = TOOL, mcontent = Text (content (must_read_error (u ''/ws/a.txt''))),
                name = None, tool_calls = None, tool_call_id = Some (u ''tc_9'')\<rparr>],
          trajectory := Some [ToolResultEvent (Some (prompt_id_of 1)) 1 (u ''tc_9'')
                                (content (must_read_error (u ''/ws/a.txt''))) True
                                (Some (u ''edit_file'')) (Some edit_args)]\<rparr>,
       tools_state = example_world\<rparr>)"
    by (simp add: execute_and_record_def example_session_def run add_tool_result_def
        trajectory_write_def truthy name Let_def)
       (simp add: example_engine_def)
  then show ?thesis
    by (simp add: must_read_error_def create_error_result_def u_def)
qed

section \<open>Properties of the Agent Loop\<close>

lemma run_loop_bounds:
  "iteration \<le> max_iterations a \<Longrightarrow> run_loop a stream iteration st = (evs, n, fr, st')
     \<Longrightarrow> iteration \<le> n \<and> n \<le> max_iterations a"
proof (induction "nat (max_iterations a - iteration)" arbitrary: iteration st evs n fr st')
  case 0
  then have "\<not> iteration < max_iterations a" by simp
  then have "run_loop a stream iteration st = ([], iteration, [], st)"
    by (simp add: run_loop.simps [of a stream iteration st])
  with "0.prems" show ?case by simp
next
  case (Suc k)
  then have less: "iteration < max_iterations a" by simp
  obtain e1 oc s1 where it: "run_iteration a stream (iteration + 1) st = (e1, oc, s1)"
    by (cases "run_iteration a stream (iteration + 1) st") auto
  show ?case
  proof (cases oc)
    case NextIteration
    obtain e2 n2 fr2 s2 where rest: "run_loop a stream (iteration + 1) s1 = (e2, n2, fr2, s2)"
      by (cases "run_loop a stream (iteration + 1) s1") auto
    have k: "k = nat (max_iterations a - (iteration + 1))"
      using Suc.hyps(2) by simp
    have le: "iteration + 1 \<le> max_iterations a"
      using less by simp
    from Suc.hyps(1) [OF k le rest] have "iteration + 1 \<le> n2 \<and> n2 \<le> max_iterations a" .
    moreover have "n = n2"
      using Suc.prems(2) less it NextIteration rest
      by (simp add: run_loop.simps [of a stream iteration st])
    ultimately show ?thesis by simp
  next
    case (Finished x)
    with Suc.prems(2) less it show ?thesis
      by (auto simp: run_loop.simps [of a stream iteration st])
  next
    case Failed
    with Suc.prems(2) less it show ?thesis
      by (auto simp: run_loop.simps [of a stream iteration st])
  qed
qed

lemma MAX_ITERATIONS_MESSAGE_nonempty: "MAX_ITERATIONS_MESSAGE \<noteq> []"
  by (simp add: MAX_ITERATIONS_MESSAGE_def u_def)

text \<open>
  Claim C5. The configuration admits only a positive \<open>max_iterations\<close>
  (\<open>VALIDATIONS\<close> in \<open>config.py\<close>: \<open>max_iterations must be positive\<close>), and the
  command line stops on a value it rejects before the agent loop is built. For every
  cap that is not negative, \<open>run\<close> ends with one \<open>agent_done\<close> event after the
  events of the loop; its \<open>iterations\<close> is the value of \<open>iteration\<close> on leaving
  the loop, which is at most \<open>max_iterations\<close>; its \<open>final_response\<close> is the
  sentinel when the loop was left at \<open>max_iterations\<close> with an empty final
  response, and the final response of the loop otherwise; so at the cap the
  \<open>final_response\<close> is not empty.
\<close>

theorem run_iterations_bounded:
  assumes "0 \<le> max_iterations a"
  shows "\<exists>evs n fr st'.
     run_loop a stream 0
       (st\<lparr>session := (session st)\<lparr>engine := add_user_message user_query
                                                 (engine (session st))\<rparr>\<rparr>) = (evs, n, fr, st')
     \<and> run a user_query stream st =
         (evs @ [AgentDone (if n = max_iterations a \<and> fr = [] then MAX_ITERATIONS_MESSAGE else fr) n
                   (session_id (engine (session st')))], st')
     \<and> 0 \<le> n \<and> n \<le> max_iterations a
     \<and> (n = max_iterations a \<longrightarrow>
          (if n = max_iterations a \<and> fr = [] then MAX_ITERATIONS_MESSAGE else fr) \<noteq> [])"
proof -
  let ?st0 = "st\<lparr>session := (session st)\<lparr>engine := add_user_message user_query
                                                     (engine (session st))\<rparr>\<rparr>"
  obtain evs n fr st' where loop: "run_loop a stream 0 ?st0 = (evs, n, fr, st')"
    by (cases "run_loop a stream 0 ?st0") auto
  from run_loop_bounds [OF assms loop] have bounds: "0 \<le> n" "n \<le> max_iterations a"
    by simp_all
  then have cap: "max_iterations a \<le> n \<longleftrightarrow> n = max_iterations a"
    by auto
  have "run a user_query stream st =
         (evs @ [AgentDone (if n = max_iterations a \<and> fr = [] then MAX_ITERATIONS_MESSAGE else fr) n
                   (session_id (engine (session st')))], st')"
    using loop by (simp add: run_def Let_def cap)
  with loop bounds show ?thesis
    by (auto simp: MAX_ITERATIONS_MESSAGE_nonempty)
qed

theorem run_iterations_bounded_witness:
  "0 \<le> max_iterations (example_agent 1)
   \<and> fst (run (example_agent 1) (Text (u ''Read the file.'')) False example_agent_state) =
       [LlmStart 1 (u ''s1''),
        LlmDone [] True [call_unknown] (u ''s1''),
        ToolDone (u ''tc_3'') (u ''no_such_tool'') (u ''Error: Tool not found: no_such_tool'')
          None False None (u ''s1''),
        AgentDone MAX_ITERATIONS_MESSAGE 1 (u ''s1'')]"
proof -
  have cap: "0 \<le> max_iterations (example_agent 1)"
    by (simp add: example_agent_def)
  have events: "fst (run (example_agent 1) (Text (u ''Read the file.'')) False example_agent_state) =
       [LlmStart 1 (u ''s1''),
        LlmDone [] True [call_unknown] (u ''s1''),
        ToolDone (u ''tc_3'') (u ''no_such_tool'') (u ''Error: Tool not found: no_such_tool'')
          None False None (u ''s1''),
        AgentDone MAX_ITERATIONS_MESSAGE 1 (u ''s1'')]"
    by (simp add: run_def run_loop.simps run_iteration_def example_agent_def
        example_agent_state_def example_session_def example_engine_def add_user_message_def
        add_assistant_message_def trajectory_write_def build_llm_done_event_def
        has_tool_calls_def execute_tool_call_def handle_tool_not_found_def add_tool_result_def
        example_executor_def call_unknown_def Let_def u_def)
  from run_iterations_bounded [OF cap, where stream = False and st = example_agent_state
      and user_query = "Text (u ''Read the file.'')"]
    cap events
  show ?thesis
    by blast
qed

section \<open>Properties of the retry wrapper\<close>

lemma retry_default_unfold:
  "retry_default func =
     (case func 0 of
        Inr v \<Rightarrow> \<lparr>result = Returned v, calls = 1, sleeps = []\<rparr>
      | Inl e0 \<Rightarrow>
          if \<not> should_retry e0 then \<lparr>result = Raised e0, calls = 1, sleeps = []\<rparr>
          else if get_retry_delay 0 e0 1 2 < 0 then
            \<lparr>result = Raised SleepValueError, calls = 1, sleeps = []\<rparr>
          else
            (case func 1 of
               Inr v \<Rightarrow> \<lparr>result = Returned v, calls = 2, sleeps = [get_retry_delay 0 e0 1 2]\<rparr>
             | Inl e1 \<Rightarrow>
                 if \<not> should_retry e1 then
                   \<lparr>result = Raised e1, calls = 2, sleeps = [get_retry_delay 0 e0 1 2]\<rparr>
                 else if get_retry_delay 1 e1 1 2 < 0 then
                   \<lparr>result = Raised SleepValueError, calls = 2, sleeps = [get_retry_delay 0 e0 1 2]\<rparr>
                 else
                   (case func 2 of
                      Inr v \<Rightarrow> \<lparr>result = Returned v, calls = 3,
                                 sleeps = [get_retry_delay 0 e0 1 2, get_retry_delay 1 e1 1 2]\<rparr>
                    | Inl e2 \<Rightarrow> \<lparr>result = Raised e2, calls = 3,
                                 sleeps = [get_retry_delay 0 e0 1 2, get_retry_delay 1 e1 1 2]\<rparr>)))"
  by (simp add: retry_default_def retry_on_failure_def retry_loop.simps Let_def numeral_2_eq_2
      split: sum.split)

lemma get_retry_delay_first:
  "get_retry_delay 0 e 1 2 =
     (case e of RateLimitError (Some ra) \<Rightarrow> if ra \<noteq> 0 then ra else 1 | _ \<Rightarrow> 1)"
  by (simp add: get_retry_delay_def split: llm_exception.split option.split)

lemma get_retry_delay_second:
  "get_retry_delay 1 e 1 2 =
     (case e of RateLimitError (Some ra) \<Rightarrow> if ra \<noteq> 0 then ra else 2 | _ \<Rightarrow> 2)"
  by (simp add: get_retry_delay_def split: llm_exception.split option.split)

text \<open>
  Claim C6, as the code has it. The wrapper with the provider's settings (3 attempts,
  initial delay 1, base 2, the default retryable exceptions) makes at least one and
  at most three calls, and sleeps exactly once between two consecutive calls. The
  call before the sleep number \<open>k\<close> (from 0) raised a retryable exception, and the
  sleep lasts \<open>retry_after\<close> when that exception is a rate limit error whose
  \<open>retry_after\<close> is present and not zero, and \<open>1 * 2 ^ k\<close> otherwise. The wrapper
  ends with its last call: a value is returned; an exception that is not retryable
  is raised, with no sleep and no call after it; a retryable exception is raised
  again when the call was the third one, and otherwise the wait computed for it is
  negative and \<open>time.sleep\<close> raises.
\<close>

theorem retry_default_policy:
  "1 \<le> calls (retry_default func) \<and> calls (retry_default func) \<le> 3
   \<and> length (sleeps (retry_default func)) = calls (retry_default func) - 1
   \<and> (\<forall>k < length (sleeps (retry_default func)).
         \<exists>e. func k = Inl e \<and> should_retry e
           \<and> sleeps (retry_default func) ! k =
               (case e of
                  RateLimitError (Some ra) \<Rightarrow> if ra \<noteq> 0 then ra else 1 * 2 ^ k
                | _ \<Rightarrow> 1 * 2 ^ k))
   \<and> (\<forall>v. func (calls (retry_default func) - 1) = Inr v
         \<longrightarrow> result (retry_default func) = Returned v)
   \<and> (\<forall>e. func (calls (retry_default func) - 1) = Inl e \<and> \<not> should_retry e
         \<longrightarrow> result (retry_default func) = Raised e)
   \<and> (\<forall>e. func (calls (retry_default func) - 1) = Inl e \<and> should_retry e
         \<longrightarrow> (if calls (retry_default func) = 3 then result (retry_default func) = Raised e
              else get_retry_delay (int (calls (retry_default func) - 1)) e 1 2 < 0
                   \<and> result (retry_default func) = Raised SleepValueError))"
proof -
  let ?r = "retry_default func"
  show ?thesis
  proof (cases "func 0")
    case (Inr v)
    then have "?r = \<lparr>result = Returned v, calls = 1, sleeps = []\<rparr>"
      by (simp add: retry_default_unfold)
    with Inr show ?thesis by simp
  next
    case e0: (Inl e0)
    show ?thesis
    proof (cases "should_retry e0")
      case False
      with e0 have "?r = \<lparr>result = Raised e0, calls = 1, sleeps = []\<rparr>"
        by (simp add: retry_default_unfold)
      with e0 False show ?thesis by simp
    next
      case r0: True
      show ?thesis
      proof (cases "get_retry_delay 0 e0 1 2 < 0")
        case True
        with e0 r0 have "?r = \<lparr>result = Raised SleepValueError, calls = 1, sleeps = []\<rparr>"
          by (simp add: retry_default_unfold)
        with e0 r0 True show ?thesis by simp
      next
        case w0: False
        have s0: "get_retry_delay 0 e0 1 2 =
            (case e0 of RateLimitError (Some ra) \<Rightarrow> if ra \<noteq> 0 then ra else 1 * 2 ^ 0
             | _ \<Rightarrow> 1 * 2 ^ 0)"
          by (simp add: get_retry_delay_first split: llm_exception.split option.split)
        show ?thesis
        proof (cases "func 1")
          case (Inr v)
          with e0 r0 w0
          have "?r = \<lparr>result = Returned v, calls = 2, sleeps = [get_retry_delay 0 e0 1 2]\<rparr>"
            by (simp add: retry_default_unfold)
          with Inr e0 r0 s0 show ?thesis by simp
        next
          case e1: (Inl e1)
          show ?thesis
          proof (cases "should_retry e1")
            case False
            with e0 r0 w0 e1
            have "?r = \<lparr>result = Raised e1, calls = 2, sleeps = [get_retry_delay 0 e0 1 2]\<rparr>"
              by (simp add: retry_default_unfold)
            with e1 False e0 r0 s0 show ?thesis by simp
          next
            case r1: True
            show ?thesis
            proof (cases "get_retry_delay 1 e1 1 2 < 0")
              case True
              with e0 r0 w0 e1 r1
              have "?r = \<lparr>result = Raised SleepValueError, calls = 2,
                          sleeps = [get_retry_delay 0 e0 1 2]\<rparr>"
                by (simp add: retry_default_unfold)
              with e1 r1 True e0 r0 s0 show ?thesis by simp
            next
              case w1: False
              have s1: "get_retry_delay 1 e1 1 2 =
                  (case e1 of RateLimitError (Some ra) \<Rightarrow> if ra \<noteq> 0 then ra else 1 * 2 ^ 1
                   | _ \<Rightarrow> 1 * 2 ^ 1)"
                by (simp add: get_retry_delay_second split: llm_exception.split option.split)
              have sl: "\<And>x y. \<forall>k < length [x, y].
                  \<exists>e. func k = Inl e \<and> should_retry e
                    \<and> [get_retry_delay 0 e0 1 2, get_retry_delay 1 e1 1 2] ! k =
                        (case e of
                           RateLimitError (Some ra) \<Rightarrow> if ra \<noteq> 0 then ra else 1 * 2 ^ k
                         | _ \<Rightarrow> 1 * 2 ^ k)"
                using e0 r0 e1 r1 s0 s1
                by (auto simp: less_Suc_eq split: llm_exception.split option.split)
              show ?thesis
              proof (cases "func 2")
                case (Inr v)
                with e0 r0 w0 e1 r1 w1
                have r: "?r = \<lparr>result = Returned v, calls = 3,
                            sleeps = [get_retry_delay 0 e0 1 2, get_retry_delay 1 e1 1 2]\<rparr>"
                  by (simp add: retry_default_unfold)
                show ?thesis
                  unfolding r using Inr sl [of 0 0] by (simp del: One_nat_def)
              next
                case (Inl e2)
                with e0 r0 w0 e1 r1 w1
                have r: "?r = \<lparr>result = Raised e2, calls = 3,
                            sleeps = [get_retry_delay 0 e0 1 2, get_retry_delay 1 e1 1 2]\<rparr>"
                  by (simp add: retry_default_unfold)
                show ?thesis
                  unfolding r using Inl sl [of 0 0] by (simp del: One_nat_def)
              qed
            qed
          qed
        qed
      qed
    qed
  qed
qed

theorem retry_default_policy_witness:
  "calls (retry_default rate_limited_once) = 2
   \<and> sleeps (retry_default rate_limited_once) = [1 / 10]
   \<and> result (retry_default rate_limited_once) = Returned ()
   \<and> rate_limited_once 0 = Inl (RateLimitError (Some (1 / 10)))
   \<and> should_retry (RateLimitError (Some (1 / 10)))
   \<and> rate_limited_once 1 = Inr ()"
proof -
  have r: "retry_default rate_limited_once
             = \<lparr>result = Returned (), calls = 2, sleeps = [1 / 10]\<rparr>"
    by (simp add: retry_default_unfold rate_limited_once_def get_retry_delay_def)
  from retry_default_policy [of rate_limited_once] show ?thesis
    by (simp add: r rate_limited_once_def)
qed

text \<open>
  The claim as stated fails for a rate limit error that carries \<open>retry_after = 0\<close>:
  the wrapper sleeps one second, the exponential backoff, before it retries.
\<close>

theorem retry_after_zero_counterexample:
  "rate_limited_zero 0 = Inl (RateLimitError (Some 0))
   \<and> retry_after (RateLimitError (Some 0)) = Some 0
   \<and> sleeps (retry_default rate_limited_zero) = [1]
   \<and> calls (retry_default rate_limited_zero) = 2"
  by (simp add: retry_default_unfold rate_limited_zero_def get_retry_delay_def)

end
